theory Spec2Isabelle
  imports Main "HOL-Library.Sublist"
begin

section \<open>Values, errors and the external collaborators\<close>

text \<open>
  The module \<^verbatim>\<open>bilibili_api/user.py\<close> moves JSON-shaped Python values around:
  the payloads returned by \<^verbatim>\<open>request\<close>, the parameter dictionaries it is given
  and the endpoint table \<^verbatim>\<open>API = get_api("user")\<close>. They are modelled by
  \<open>pyval\<close>: \<^verbatim>\<open>None\<close>, booleans, unbounded integers, strings, lists and
  dictionaries (association lists in insertion order). Floating point numbers are left
  out of the value type, and a payload is a tree (no two places of it share one
  mutable object), as the result of decoding a JSON document is.
\<close>

datatype pyval =
    PNone
  | PBool bool
  | PInt int
  | PStr string
  | PList "pyval list"
  | PDict "(string \<times> pyval) list"

text \<open>
  The exceptions that can leave the functions of the module. The four credential
  exceptions and the three exceptions of the network layer are the ones
  \<^verbatim>\<open>bilibili_api/__init__.py\<close> imports from \<^verbatim>\<open>.errors\<close>; the others are
  Python's own (\<^verbatim>\<open>json.JSONDecodeError\<close> is a \<^verbatim>\<open>ValueError\<close> of its own
  class; \<open>ValueError\<close> is the one \<^verbatim>\<open>ChannelSeries.__init__\<close> raises).
\<close>

datatype error =
    CredentialNoSessdataException
  | CredentialNoBiliJctException
  | CredentialNoBuvid3Exception
  | CredentialNoDedeUserIDException
  | NetworkException
  | ResponseException
  | ResponseCodeException int
  | KeyError string
  | TypeError
  | JSONDecodeError
  | ValueError

subsection \<open>Credential\<close>

text \<open>
  Modelled from the spec: the class \<^verbatim>\<open>Credential\<close> of
  \<^verbatim>\<open>bilibili_api/utils/Credential.py\<close>, which is not among the sources. The spec
  (4.1, AuthContext) describes it as a bag of named credential fields, each present or
  absent, all absent by default, with \<^verbatim>\<open>requireField(name)\<close> failing with the
  error of that field when it is absent, and doing no network call. The field names are
  those of the exceptions above and of the methods \<^verbatim>\<open>raise_for_no_sessdata\<close>,
  \<^verbatim>\<open>raise_for_no_bili_jct\<close>, \<^verbatim>\<open>raise_for_no_dedeuserid\<close> that
  \<^verbatim>\<open>user.py\<close> calls.
\<close>

record Credential =
  sessdata :: "string option"
  bili_jct :: "string option"
  buvid3 :: "string option"
  dedeuserid :: "string option"

definition Credential_init :: Credential where
  "Credential_init =
     \<lparr>sessdata = None, bili_jct = None, buvid3 = None, dedeuserid = None\<rparr>"

definition raise_for_no_sessdata :: "Credential \<Rightarrow> error + unit" where
  "raise_for_no_sessdata c =
     (case sessdata c of None \<Rightarrow> Inl CredentialNoSessdataException | Some _ \<Rightarrow> Inr ())"

definition raise_for_no_bili_jct :: "Credential \<Rightarrow> error + unit" where
  "raise_for_no_bili_jct c =
     (case bili_jct c of None \<Rightarrow> Inl CredentialNoBiliJctException | Some _ \<Rightarrow> Inr ())"

definition raise_for_no_dedeuserid :: "Credential \<Rightarrow> error + unit" where
  "raise_for_no_dedeuserid c =
     (case dedeuserid c of None \<Rightarrow> Inl CredentialNoDedeUserIDException | Some _ \<Rightarrow> Inr ())"

subsection \<open>The call of the network layer and the trace of effects\<close>

text \<open>
  One call \<^verbatim>\<open>request(method, url, params=..., data=..., credential=...)\<close>: the
  keyword arguments that are not passed are \<open>None\<close>.
\<close>

record http_request =
  rq_method :: string
  rq_url :: pyval
  rq_params :: "(string \<times> pyval) list option"
  rq_data :: "(string \<times> pyval) list option"
  rq_credential :: "Credential option"

text \<open>
  The effects of the module, in the order they happen: a call of \<^verbatim>\<open>request\<close>,
  or a pause \<^verbatim>\<open>time.sleep(s)\<close> (in milliseconds, so \<^verbatim>\<open>time.sleep(0.5)\<close>
  is \<open>Sleep_ms 500\<close>).
\<close>

datatype event = Request http_request | Sleep_ms nat

text \<open>
  What the module is given from outside, as parameters: the endpoint table \<open>API\<close> (a
  JSON document), the network layer \<open>request\<close> (its answer may depend on everything
  that happened before, and is a payload or one of its errors), \<^verbatim>\<open>json.loads\<close>
  and \<^verbatim>\<open>json.dumps\<close> on strings, \<^verbatim>\<open>utils.join\<close> and the clock
  \<^verbatim>\<open>int(time.time())\<close>.
\<close>

record env =
  API :: pyval
  request :: "event list \<Rightarrow> http_request \<Rightarrow> error + pyval"
  json_loads :: "string \<Rightarrow> error + pyval"
  json_dumps :: "pyval \<Rightarrow> string"
  join :: "string \<Rightarrow> int list \<Rightarrow> string"
  time_time :: "event list \<Rightarrow> int"

subsection \<open>Python's operations on values\<close>

text \<open>\<^verbatim>\<open>v[k]\<close> for a string key: only a dictionary can be subscripted by a string.\<close>

fun getitem :: "pyval \<Rightarrow> string \<Rightarrow> error + pyval" where
  "getitem (PDict kvs) k = (case map_of kvs k of None \<Rightarrow> Inl (KeyError k) | Some v \<Rightarrow> Inr v)"
| "getitem _ k = Inl TypeError"

text \<open>\<^verbatim>\<open>d[k] = v\<close> on a dictionary: an existing key keeps its place.\<close>

fun dict_set :: "string \<Rightarrow> pyval \<Rightarrow> (string \<times> pyval) list \<Rightarrow> (string \<times> pyval) list" where
  "dict_set k v [] = [(k, v)]"
| "dict_set k v (p # ps) = (if fst p = k then (k, v) # ps else p # dict_set k v ps)"

fun setitem :: "pyval \<Rightarrow> string \<Rightarrow> pyval \<Rightarrow> error + pyval" where
  "setitem (PDict kvs) k v = Inr (PDict (dict_set k v kvs))"
| "setitem _ k v = Inl TypeError"

text \<open>
  \<^verbatim>\<open>k in v\<close> for a string \<open>k\<close>: a key of a dictionary, an element of a list, a
  substring of a string; anything else is not iterable.
\<close>

fun contains :: "pyval \<Rightarrow> string \<Rightarrow> error + bool" where
  "contains (PDict kvs) k = Inr (map_of kvs k \<noteq> None)"
| "contains (PList xs) k = Inr (PStr k \<in> set xs)"
| "contains (PStr s) k = Inr (sublist k s)"
| "contains _ k = Inl TypeError"

text \<open>
  \<^verbatim>\<open>v == n\<close> for an integer \<open>n\<close>: Python's \<^verbatim>\<open>True\<close> and \<^verbatim>\<open>False\<close> are the
  integers 1 and 0.
\<close>

fun py_eq_int :: "pyval \<Rightarrow> int \<Rightarrow> bool" where
  "py_eq_int (PInt m) n = (m = n)"
| "py_eq_int (PBool b) n = ((if b then 1 else 0) = n)"
| "py_eq_int _ n = False"

text \<open>\<^verbatim>\<open>json.loads(v)\<close>: the argument has to be a string.\<close>

fun py_loads :: "env \<Rightarrow> pyval \<Rightarrow> error + pyval" where
  "py_loads E (PStr s) = json_loads E s"
| "py_loads E _ = Inl TypeError"

text \<open>\<^verbatim>\<open>API[section][name]\<close> and the call of \<^verbatim>\<open>request\<close> with \<^verbatim>\<open>api["url"]\<close>.\<close>

definition api_entry :: "env \<Rightarrow> string \<Rightarrow> string \<Rightarrow> error + pyval" where
  "api_entry E section name =
     (case getitem (API E) section of Inl e \<Rightarrow> Inl e | Inr s \<Rightarrow> getitem s name)"

definition call_request :: "env \<Rightarrow> http_request \<Rightarrow> event list \<Rightarrow> (error + pyval) \<times> event list" where
  "call_request E r tr = (request E tr r, tr @ [Request r])"

definition send ::
  "env \<Rightarrow> string \<Rightarrow> pyval \<Rightarrow> (string \<times> pyval) list option \<Rightarrow> (string \<times> pyval) list option
     \<Rightarrow> Credential option \<Rightarrow> event list \<Rightarrow> (error + pyval) \<times> event list" where
  "send E m api ps d c tr =
     (case getitem api ''url'' of
        Inl e \<Rightarrow> (Inl e, tr)
      | Inr u \<Rightarrow>
          call_request E
            \<lparr>rq_method = m, rq_url = u, rq_params = ps, rq_data = d, rq_credential = c\<rparr> tr)"

section \<open>The enumerations and their values\<close>

text \<open>Each \<^verbatim>\<open>Enum\<close> class of the module, with the \<^verbatim>\<open>.value\<close> of its members.\<close>

datatype VideoOrder = VideoOrder_PUBDATE | VideoOrder_FAVORATE | VideoOrder_VIEW

fun VideoOrder_value :: "VideoOrder \<Rightarrow> pyval" where
  "VideoOrder_value VideoOrder_PUBDATE = PStr ''pubdate''"
| "VideoOrder_value VideoOrder_FAVORATE = PStr ''stow''"
| "VideoOrder_value VideoOrder_VIEW = PStr ''click''"

datatype ChannelOrder = ChannelOrder_DEFAULT | ChannelOrder_CHANGE

fun ChannelOrder_value :: "ChannelOrder \<Rightarrow> pyval" where
  "ChannelOrder_value ChannelOrder_DEFAULT = PStr ''false''"
| "ChannelOrder_value ChannelOrder_CHANGE = PStr ''true''"

datatype AudioOrder = AudioOrder_PUBDATE | AudioOrder_VIEW | AudioOrder_FAVORATE

fun AudioOrder_value :: "AudioOrder \<Rightarrow> pyval" where
  "AudioOrder_value AudioOrder_PUBDATE = PInt 1"
| "AudioOrder_value AudioOrder_VIEW = PInt 2"
| "AudioOrder_value AudioOrder_FAVORATE = PInt 3"

datatype ArticleOrder = ArticleOrder_PUBDATE | ArticleOrder_FAVORATE | ArticleOrder_VIEW

fun ArticleOrder_value :: "ArticleOrder \<Rightarrow> pyval" where
  "ArticleOrder_value ArticleOrder_PUBDATE = PStr ''publish_time''"
| "ArticleOrder_value ArticleOrder_FAVORATE = PStr ''fav''"
| "ArticleOrder_value ArticleOrder_VIEW = PStr ''view''"

datatype ArticleListOrder = ArticleListOrder_LATEST | ArticleListOrder_VIEW

fun ArticleListOrder_value :: "ArticleListOrder \<Rightarrow> pyval" where
  "ArticleListOrder_value ArticleListOrder_LATEST = PInt 0"
| "ArticleListOrder_value ArticleListOrder_VIEW = PInt 1"

datatype BangumiType = BangumiType_BANGUMI | BangumiType_DRAMA

fun BangumiType_value :: "BangumiType \<Rightarrow> pyval" where
  "BangumiType_value BangumiType_BANGUMI = PInt 1"
| "BangumiType_value BangumiType_DRAMA = PInt 2"

datatype RelationType =
    SUBSCRIBE | UNSUBSCRIBE | SUBSCRIBE_SECRETLY | BLOCK | UNBLOCK | REMOVE_FANS

fun RelationType_value :: "RelationType \<Rightarrow> pyval" where
  "RelationType_value SUBSCRIBE = PInt 1"
| "RelationType_value UNSUBSCRIBE = PInt 2"
| "RelationType_value SUBSCRIBE_SECRETLY = PInt 3"
| "RelationType_value BLOCK = PInt 5"
| "RelationType_value UNBLOCK = PInt 6"
| "RelationType_value REMOVE_FANS = PInt 7"

datatype ChannelSeriesType = SERIES | SEASON

fun ChannelSeriesType_value :: "ChannelSeriesType \<Rightarrow> int" where
  "ChannelSeriesType_value SERIES = 0"
| "ChannelSeriesType_value SEASON = 1"

section \<open>The class User\<close>

text \<open>
  An instance holds \<^verbatim>\<open>uid\<close>, \<^verbatim>\<open>credential\<close> and the private
  \<^verbatim>\<open>__self_info\<close>, which is \<^verbatim>\<open>None\<close> until the first lookup of the caller's
  own identity. A method takes the trace of the effects so far and returns its result
  (or the exception it raises) with the trace extended; \<open>send_msg\<close>, the one method
  that assigns a field, also returns the instance.
\<close>

record User =
  uid :: int
  credential :: Credential
  self_info :: pyval

definition User_init :: "int \<Rightarrow> Credential option \<Rightarrow> User" where
  "User_init u c =
     \<lparr>uid = u,
      credential = (case c of None \<Rightarrow> Credential_init | Some c' \<Rightarrow> c'),
      self_info = PNone\<rparr>"

definition get_user_info :: "env \<Rightarrow> User \<Rightarrow> event list \<Rightarrow> (error + pyval) \<times> event list" where
  "get_user_info E self tr =
     (case api_entry E ''info'' ''info'' of
        Inl e \<Rightarrow> (Inl e, tr)
      | Inr api \<Rightarrow>
          send E ''GET'' api (Some [(''mid'', PInt (uid self))]) None
            (Some (credential self)) tr)"

definition get_relation_info :: "env \<Rightarrow> User \<Rightarrow> event list \<Rightarrow> (error + pyval) \<times> event list" where
  "get_relation_info E self tr =
     (case api_entry E ''info'' ''relation'' of
        Inl e \<Rightarrow> (Inl e, tr)
      | Inr api \<Rightarrow>
          send E ''GET'' api (Some [(''vmid'', PInt (uid self))]) None
            (Some (credential self)) tr)"

definition get_up_stat :: "env \<Rightarrow> User \<Rightarrow> event list \<Rightarrow> (error + pyval) \<times> event list" where
  "get_up_stat E self tr =
     (case raise_for_no_bili_jct (credential self) of
        Inl e \<Rightarrow> (Inl e, tr)
      | Inr _ \<Rightarrow>
          (case api_entry E ''info'' ''upstat'' of
             Inl e \<Rightarrow> (Inl e, tr)
           | Inr api \<Rightarrow>
               send E ''GET'' api (Some [(''mid'', PInt (uid self))]) None
                 (Some (credential self)) tr))"

definition get_live_info :: "env \<Rightarrow> User \<Rightarrow> event list \<Rightarrow> (error + pyval) \<times> event list" where
  "get_live_info E self tr =
     (case api_entry E ''info'' ''live'' of
        Inl e \<Rightarrow> (Inl e, tr)
      | Inr api \<Rightarrow>
          send E ''GET'' api (Some [(''mid'', PInt (uid self))]) None
            (Some (credential self)) tr)"

definition get_videos ::
  "env \<Rightarrow> User \<Rightarrow> int \<Rightarrow> int \<Rightarrow> int \<Rightarrow> string \<Rightarrow> VideoOrder \<Rightarrow> event list
     \<Rightarrow> (error + pyval) \<times> event list" where
  "get_videos E self tid pn ps keyword order tr =
     (case api_entry E ''info'' ''video'' of
        Inl e \<Rightarrow> (Inl e, tr)
      | Inr api \<Rightarrow>
          send E ''GET'' api
            (Some [(''mid'', PInt (uid self)), (''ps'', PInt ps), (''tid'', PInt tid),
                   (''pn'', PInt pn), (''keyword'', PStr keyword),
                   (''order'', VideoOrder_value order)])
            None (Some (credential self)) tr)"

definition get_audios ::
  "env \<Rightarrow> User \<Rightarrow> AudioOrder \<Rightarrow> int \<Rightarrow> int \<Rightarrow> event list \<Rightarrow> (error + pyval) \<times> event list" where
  "get_audios E self order pn ps tr =
     (case api_entry E ''info'' ''audio'' of
        Inl e \<Rightarrow> (Inl e, tr)
      | Inr api \<Rightarrow>
          send E ''GET'' api
            (Some [(''uid'', PInt (uid self)), (''ps'', PInt ps), (''pn'', PInt pn),
                   (''order'', AudioOrder_value order)])
            None (Some (credential self)) tr)"

definition get_articles ::
  "env \<Rightarrow> User \<Rightarrow> int \<Rightarrow> ArticleOrder \<Rightarrow> int \<Rightarrow> event list \<Rightarrow> (error + pyval) \<times> event list" where
  "get_articles E self pn order ps tr =
     (case api_entry E ''info'' ''article'' of
        Inl e \<Rightarrow> (Inl e, tr)
      | Inr api \<Rightarrow>
          send E ''GET'' api
            (Some [(''mid'', PInt (uid self)), (''ps'', PInt ps), (''pn'', PInt pn),
                   (''sort'', ArticleOrder_value order)])
            None (Some (credential self)) tr)"

definition get_article_list ::
  "env \<Rightarrow> User \<Rightarrow> ArticleListOrder \<Rightarrow> event list \<Rightarrow> (error + pyval) \<times> event list" where
  "get_article_list E self order tr =
     (case api_entry E ''info'' ''article_lists'' of
        Inl e \<Rightarrow> (Inl e, tr)
      | Inr api \<Rightarrow>
          send E ''GET'' api
            (Some [(''mid'', PInt (uid self)), (''sort'', ArticleListOrder_value order)])
            None (Some (credential self)) tr)"

subsection \<open>The dynamics feed\<close>

text \<open>
  The body of the loop of \<^verbatim>\<open>get_dynamics\<close>, for one element \<open>item\<close>
  (the loop variable \<^verbatim>\<open>card\<close>) of \<^verbatim>\<open>data["cards"]\<close>:
  \<^verbatim>\<open>card["card"] = json.loads(card["card"])\<close>, then the same for
  \<^verbatim>\<open>"extend_json"\<close>.
\<close>

definition unwrap_field :: "env \<Rightarrow> string \<Rightarrow> pyval \<Rightarrow> error + pyval" where
  "unwrap_field E k item =
     (case getitem item k of
        Inl e \<Rightarrow> Inl e
      | Inr v \<Rightarrow>
          (case py_loads E v of
             Inl e \<Rightarrow> Inl e
           | Inr d \<Rightarrow> setitem item k d))"

definition unwrap_card :: "env \<Rightarrow> pyval \<Rightarrow> error + pyval" where
  "unwrap_card E item =
     (case unwrap_field E ''card'' item of
        Inl e \<Rightarrow> Inl e
      | Inr item' \<Rightarrow> unwrap_field E ''extend_json'' item')"

fun unwrap_cards :: "env \<Rightarrow> pyval list \<Rightarrow> error + pyval list" where
  "unwrap_cards E [] = Inr []"
| "unwrap_cards E (c # cs) =
     (case unwrap_card E c of
        Inl e \<Rightarrow> Inl e
      | Inr c' \<Rightarrow>
          (case unwrap_cards E cs of
             Inl e \<Rightarrow> Inl e
           | Inr cs' \<Rightarrow> Inr (c' # cs')))"

text \<open>
  \<^verbatim>\<open>if "cards" in data: for card in data["cards"]: ...\<close> and the value returned.
  The loop runs over the elements of a list; over a dictionary or a string it would run
  over keys or characters, which are strings and cannot be subscripted by
  \<^verbatim>\<open>"card"\<close>, so only an empty one passes; nothing else is iterable. The elements
  are changed in place, so the list under \<^verbatim>\<open>"cards"\<close> holds the changed ones.
\<close>

definition unwrap_dynamics :: "env \<Rightarrow> pyval \<Rightarrow> error + pyval" where
  "unwrap_dynamics E data =
     (case contains data ''cards'' of
        Inl e \<Rightarrow> Inl e
      | Inr False \<Rightarrow> Inr data
      | Inr True \<Rightarrow>
          (case getitem data ''cards'' of
             Inl e \<Rightarrow> Inl e
           | Inr cards \<Rightarrow>
               (case cards of
                  PList cs \<Rightarrow>
                    (case unwrap_cards E cs of
                       Inl e \<Rightarrow> Inl e
                     | Inr cs' \<Rightarrow> setitem data ''cards'' (PList cs'))
                | PDict kvs \<Rightarrow> if kvs = [] then Inr data else Inl TypeError
                | PStr s \<Rightarrow> if s = [] then Inr data else Inl TypeError
                | _ \<Rightarrow> Inl TypeError)))"

definition get_dynamics ::
  "env \<Rightarrow> User \<Rightarrow> pyval \<Rightarrow> bool \<Rightarrow> event list \<Rightarrow> (error + pyval) \<times> event list" where
  "get_dynamics E self offset need_top tr =
     (case api_entry E ''info'' ''dynamic'' of
        Inl e \<Rightarrow> (Inl e, tr)
      | Inr api \<Rightarrow>
          (case send E ''GET'' api
                  (Some [(''host_uid'', PInt (uid self)), (''offset_dynamic_id'', offset),
                         (''need_top'', PInt (if need_top then 1 else 0))])
                  None (Some (credential self)) tr of
             (Inl e, tr') \<Rightarrow> (Inl e, tr')
           | (Inr data, tr') \<Rightarrow> (unwrap_dynamics E data, tr')))"

subsection \<open>Lists of relations\<close>

definition get_subscribed_bangumi ::
  "env \<Rightarrow> User \<Rightarrow> int \<Rightarrow> BangumiType \<Rightarrow> event list \<Rightarrow> (error + pyval) \<times> event list" where
  "get_subscribed_bangumi E self pn type' tr =
     (case api_entry E ''info'' ''bangumi'' of
        Inl e \<Rightarrow> (Inl e, tr)
      | Inr api \<Rightarrow>
          send E ''GET'' api
            (Some [(''vmid'', PInt (uid self)), (''pn'', PInt pn), (''ps'', PInt 15),
                   (''type'', BangumiType_value type')])
            None (Some (credential self)) tr)"

definition get_followings ::
  "env \<Rightarrow> User \<Rightarrow> int \<Rightarrow> bool \<Rightarrow> event list \<Rightarrow> (error + pyval) \<times> event list" where
  "get_followings E self pn desc tr =
     (case api_entry E ''info'' ''followings'' of
        Inl e \<Rightarrow> (Inl e, tr)
      | Inr api \<Rightarrow>
          send E ''GET'' api
            (Some [(''vmid'', PInt (uid self)), (''ps'', PInt 20), (''pn'', PInt pn),
                   (''order'', PStr (if desc then ''desc'' else ''asc''))])
            None (Some (credential self)) tr)"

definition get_followers ::
  "env \<Rightarrow> User \<Rightarrow> int \<Rightarrow> bool \<Rightarrow> event list \<Rightarrow> (error + pyval) \<times> event list" where
  "get_followers E self pn desc tr =
     (case api_entry E ''info'' ''followers'' of
        Inl e \<Rightarrow> (Inl e, tr)
      | Inr api \<Rightarrow>
          send E ''GET'' api
            (Some [(''vmid'', PInt (uid self)), (''ps'', PInt 20), (''pn'', PInt pn),
                   (''order'', PStr (if desc then ''desc'' else ''asc''))])
            None (Some (credential self)) tr)"

definition get_overview_stat :: "env \<Rightarrow> User \<Rightarrow> event list \<Rightarrow> (error + pyval) \<times> event list" where
  "get_overview_stat E self tr =
     (case api_entry E ''info'' ''overview'' of
        Inl e \<Rightarrow> (Inl e, tr)
      | Inr api \<Rightarrow>
          send E ''GET'' api
            (Some [(''mid'', PInt (uid self)), (''jsonp'', PStr ''jsonp'')])
            None (Some (credential self)) tr)"

subsection \<open>Operations on the user\<close>

definition modify_relation ::
  "env \<Rightarrow> User \<Rightarrow> RelationType \<Rightarrow> event list \<Rightarrow> (error + pyval) \<times> event list" where
  "modify_relation E self relation tr =
     (case raise_for_no_sessdata (credential self) of
        Inl e \<Rightarrow> (Inl e, tr)
      | Inr _ \<Rightarrow>
          (case raise_for_no_bili_jct (credential self) of
             Inl e \<Rightarrow> (Inl e, tr)
           | Inr _ \<Rightarrow>
               (case api_entry E ''operate'' ''modify'' of
                  Inl e \<Rightarrow> (Inl e, tr)
                | Inr api \<Rightarrow>
                    send E ''POST'' api None
                      (Some [(''fid'', PInt (uid self)), (''act'', RelationType_value relation),
                             (''re_src'', PInt 11)])
                      (Some (credential self)) tr)))"

text \<open>The module's function \<^verbatim>\<open>get_self_info(credential)\<close>.\<close>

definition get_self_info :: "env \<Rightarrow> Credential \<Rightarrow> event list \<Rightarrow> (error + pyval) \<times> event list" where
  "get_self_info E c tr =
     (case api_entry E ''info'' ''my_info'' of
        Inl e \<Rightarrow> (Inl e, tr)
      | Inr api \<Rightarrow>
          (case raise_for_no_sessdata c of
             Inl e \<Rightarrow> (Inl e, tr)
           | Inr _ \<Rightarrow> send E ''GET'' api None None (Some c) tr))"

text \<open>
  The private method \<^verbatim>\<open>User.__get_self_info\<close>: the cached value when there is
  one, else the answer of \<open>get_self_info\<close>, which it stores.
\<close>

definition User_get_self_info ::
  "env \<Rightarrow> User \<Rightarrow> event list \<Rightarrow> (error + pyval) \<times> User \<times> event list" where
  "User_get_self_info E self tr =
     (if self_info self \<noteq> PNone then (Inr (self_info self), self, tr)
      else
        (case get_self_info E (credential self) tr of
           (Inl e, tr') \<Rightarrow> (Inl e, self, tr')
         | (Inr v, tr') \<Rightarrow> (Inr v, self\<lparr>self_info := v\<rparr>, tr')))"

definition send_msg ::
  "env \<Rightarrow> User \<Rightarrow> string \<Rightarrow> event list \<Rightarrow> (error + pyval) \<times> User \<times> event list" where
  "send_msg E self text' tr =
     (case raise_for_no_sessdata (credential self) of
        Inl e \<Rightarrow> (Inl e, self, tr)
      | Inr _ \<Rightarrow>
          (case raise_for_no_bili_jct (credential self) of
             Inl e \<Rightarrow> (Inl e, self, tr)
           | Inr _ \<Rightarrow>
               (case api_entry E ''operate'' ''send_msg'' of
                  Inl e \<Rightarrow> (Inl e, self, tr)
                | Inr api \<Rightarrow>
                    (case User_get_self_info E self tr of
                       (Inl e, self', tr') \<Rightarrow> (Inl e, self', tr')
                     | (Inr info, self', tr') \<Rightarrow>
                         (case getitem info ''mid'' of
                            Inl e \<Rightarrow> (Inl e, self', tr')
                          | Inr sender_uid \<Rightarrow>
                              (case send E ''POST'' api None
                                      (Some [(''msg[sender_uid]'', sender_uid),
                                             (''msg[receiver_id]'', PInt (uid self')),
                                             (''msg[receiver_type]'', PInt 1),
                                             (''msg[msg_type]'', PInt 1),
                                             (''msg[msg_status]'', PInt 0),
                                             (''msg[content]'',
                                                PStr (json_dumps E (PDict [(''content'', PStr text')]))),
                                             (''msg[dev_id]'',
                                                PStr ''B9A37BF3-AA9D-4076-A4D3-366AC8C4C5DB''),
                                             (''msg[new_face_version]'', PStr ''0''),
                                             (''msg[timestamp]'', PInt (time_time E tr')),
                                             (''from_filework'', PInt 0),
                                             (''build'', PInt 0),
                                             (''mobi_app'', PStr ''web'')])
                                      (Some (credential self')) tr' of
                                 (r, tr'') \<Rightarrow> (r, self', tr'')))))))"

subsection \<open>Channels of a user\<close>

definition get_channel_videos_series ::
  "env \<Rightarrow> User \<Rightarrow> int \<Rightarrow> int \<Rightarrow> int \<Rightarrow> event list \<Rightarrow> (error + pyval) \<times> event list" where
  "get_channel_videos_series E self sid pn ps tr =
     (case api_entry E ''info'' ''channel_video_series'' of
        Inl e \<Rightarrow> (Inl e, tr)
      | Inr api \<Rightarrow>
          send E ''GET'' api
            (Some [(''mid'', PInt (uid self)), (''series_id'', PInt sid), (''pn'', PInt pn),
                   (''ps'', PInt ps)])
            None (Some (credential self)) tr)"

definition get_channel_videos_season ::
  "env \<Rightarrow> User \<Rightarrow> int \<Rightarrow> ChannelOrder \<Rightarrow> int \<Rightarrow> int \<Rightarrow> event list
     \<Rightarrow> (error + pyval) \<times> event list" where
  "get_channel_videos_season E self sid sort' pn ps tr =
     (case api_entry E ''info'' ''channel_video_season'' of
        Inl e \<Rightarrow> (Inl e, tr)
      | Inr api \<Rightarrow>
          send E ''GET'' api
            (Some [(''mid'', PInt (uid self)), (''season_id'', PInt sid),
                   (''sort_reverse'', ChannelOrder_value sort'), (''page_num'', PInt pn),
                   (''page_size'', PInt ps)])
            None (Some (credential self)) tr)"

text \<open>\<^verbatim>\<open>res["items_lists"]["page"]["total"]\<close>.\<close>

definition page_total :: "pyval \<Rightarrow> error + pyval" where
  "page_total res =
     (case getitem res ''items_lists'' of
        Inl e \<Rightarrow> Inl e
      | Inr il \<Rightarrow>
          (case getitem il ''page'' of
             Inl e \<Rightarrow> Inl e
           | Inr pg \<Rightarrow> getitem pg ''total''))"

text \<open>
  \<^verbatim>\<open>get_channel_list\<close>: a first call with \<^verbatim>\<open>page_size\<close> 1, the total read from
  its answer, \<^verbatim>\<open>time.sleep(0.5)\<close>, and a second call with \<^verbatim>\<open>page_size\<close> set
  to the total, or to 1 when the total \<^verbatim>\<open>== 0\<close>.
\<close>

definition get_channel_list :: "env \<Rightarrow> User \<Rightarrow> event list \<Rightarrow> (error + pyval) \<times> event list" where
  "get_channel_list E self tr =
     (case api_entry E ''info'' ''channel_list'' of
        Inl e \<Rightarrow> (Inl e, tr)
      | Inr api \<Rightarrow>
          (case send E ''GET'' api
                  (Some [(''mid'', PInt (uid self)), (''page_num'', PInt 1),
                         (''page_size'', PInt 1)])
                  None (Some (credential self)) tr of
             (Inl e, tr') \<Rightarrow> (Inl e, tr')
           | (Inr res, tr') \<Rightarrow>
               (case page_total res of
                  Inl e \<Rightarrow> (Inl e, tr')
                | Inr items \<Rightarrow>
                    send E ''GET'' api
                      (Some (dict_set ''page_size'' (if py_eq_int items 0 then PInt 1 else items)
                               [(''mid'', PInt (uid self)), (''page_num'', PInt 1),
                                (''page_size'', PInt 1)]))
                      None (Some (credential self)) (tr' @ [Sleep_ms 500]))))"

definition get_cheese :: "env \<Rightarrow> User \<Rightarrow> event list \<Rightarrow> (error + pyval) \<times> event list" where
  "get_cheese E self tr =
     (case api_entry E ''info'' ''pugv'' of
        Inl e \<Rightarrow> (Inl e, tr)
      | Inr api \<Rightarrow> send E ''GET'' api (Some [(''mid'', PInt (uid self))]) None None tr)"

section \<open>The class ChannelSeries\<close>

record ChannelSeries =
  cs_uid :: int
  is_new :: int
  cs_id :: int
  owner :: User
  cs_credential :: "Credential option"
  meta :: pyval

text \<open>What a \<^verbatim>\<open>for\<close> loop runs over: elements, keys or characters.\<close>

fun iter_values :: "pyval \<Rightarrow> error + pyval list" where
  "iter_values (PList xs) = Inr xs"
| "iter_values (PDict kvs) = Inr (map (\<lambda>p. PStr (fst p)) kvs)"
| "iter_values (PStr s) = Inr (map (\<lambda>c. PStr [c]) s)"
| "iter_values _ = Inl TypeError"

text \<open>
  The loop of \<^verbatim>\<open>ChannelSeries.__init__\<close> over the channels of one kind; \<open>m\<close> is
  \<^verbatim>\<open>self.meta\<close>. It has no \<^verbatim>\<open>break\<close>: every channel is read, and the last
  match stays.
\<close>

fun scan_channels :: "int \<Rightarrow> int \<Rightarrow> pyval list \<Rightarrow> pyval \<Rightarrow> error + pyval" where
  "scan_channels new i [] m = Inr m"
| "scan_channels new i (channel # channels) m =
     (case getitem channel ''meta'' of
        Inl e \<Rightarrow> Inl e
      | Inr mt \<Rightarrow>
          (case getitem mt (if new \<noteq> 0 then ''season_id'' else ''series_id'') of
             Inl e \<Rightarrow> Inl e
           | Inr type_id \<Rightarrow> scan_channels new i channels (if py_eq_int type_id i then mt else m)))"

text \<open>
  The constructor. \<^verbatim>\<open>sync(...)\<close> runs \<open>get_channel_list\<close> of the owner to its end.
  The argument \<^verbatim>\<open>meta\<close> is any value; \<^verbatim>\<open>meta == None\<close> holds for \<open>PNone\<close>
  only.
\<close>

definition ChannelSeries_init ::
  "env \<Rightarrow> int \<Rightarrow> ChannelSeriesType \<Rightarrow> int \<Rightarrow> Credential option \<Rightarrow> pyval \<Rightarrow> event list
     \<Rightarrow> (error + ChannelSeries) \<times> event list" where
  "ChannelSeries_init E u type' i c meta' tr =
     (let new = ChannelSeriesType_value type';
          own = User_init u c;
          look_type = (if new \<noteq> 0 then ''seasons'' else ''series'')
      in
        if meta' = PNone then
          (case get_channel_list E own tr of
             (Inl e, tr') \<Rightarrow> (Inl e, tr')
           | (Inr channel_list, tr') \<Rightarrow>
               (case getitem channel_list ''items_lists'' of
                  Inl e \<Rightarrow> (Inl e, tr')
                | Inr il \<Rightarrow>
                    (case getitem il (look_type @ ''_list'') of
                       Inl e \<Rightarrow> (Inl e, tr')
                     | Inr l \<Rightarrow>
                         (case iter_values l of
                            Inl e \<Rightarrow> (Inl e, tr')
                          | Inr channels \<Rightarrow>
                              (case scan_channels new i channels PNone of
                                 Inl e \<Rightarrow> (Inl e, tr')
                               | Inr m \<Rightarrow>
                                   if m = PNone then (Inl ValueError, tr')
                                   else
                                     (Inr \<lparr>cs_uid = u, is_new = new, cs_id = i, owner = own,
                                           cs_credential = c, meta = m\<rparr>, tr'))))))
        else
          (Inr \<lparr>cs_uid = u, is_new = new, cs_id = i, owner = own, cs_credential = c,
                meta = meta'\<rparr>, tr))"

definition get_meta :: "ChannelSeries \<Rightarrow> pyval" where
  "get_meta self = meta self"

definition ChannelSeries_get_videos ::
  "env \<Rightarrow> ChannelSeries \<Rightarrow> ChannelOrder \<Rightarrow> int \<Rightarrow> int \<Rightarrow> event list
     \<Rightarrow> (error + pyval) \<times> event list" where
  "ChannelSeries_get_videos E self sort' pn ps tr =
     (if is_new self \<noteq> 0 then get_channel_videos_season E (owner self) (cs_id self) sort' pn ps tr
      else get_channel_videos_series E (owner self) (cs_id self) pn ps tr)"

section \<open>The functions of the module\<close>

definition create_subscribe_group ::
  "env \<Rightarrow> string \<Rightarrow> Credential \<Rightarrow> event list \<Rightarrow> (error + pyval) \<times> event list" where
  "create_subscribe_group E name c tr =
     (case raise_for_no_sessdata c of
        Inl e \<Rightarrow> (Inl e, tr)
      | Inr _ \<Rightarrow>
          (case raise_for_no_bili_jct c of
             Inl e \<Rightarrow> (Inl e, tr)
           | Inr _ \<Rightarrow>
               (case api_entry E ''operate'' ''create_subscribe_group'' of
                  Inl e \<Rightarrow> (Inl e, tr)
                | Inr api \<Rightarrow>
                    send E ''POST'' api None (Some [(''tag'', PStr name)]) (Some c) tr)))"

definition delete_subscribe_group ::
  "env \<Rightarrow> int \<Rightarrow> Credential \<Rightarrow> event list \<Rightarrow> (error + pyval) \<times> event list" where
  "delete_subscribe_group E group_id c tr =
     (case raise_for_no_sessdata c of
        Inl e \<Rightarrow> (Inl e, tr)
      | Inr _ \<Rightarrow>
          (case raise_for_no_bili_jct c of
             Inl e \<Rightarrow> (Inl e, tr)
           | Inr _ \<Rightarrow>
               (case api_entry E ''operate'' ''del_subscribe_group'' of
                  Inl e \<Rightarrow> (Inl e, tr)
                | Inr api \<Rightarrow>
                    send E ''POST'' api None (Some [(''tagid'', PInt group_id)]) (Some c) tr)))"

definition rename_subscribe_group ::
  "env \<Rightarrow> int \<Rightarrow> string \<Rightarrow> Credential \<Rightarrow> event list \<Rightarrow> (error + pyval) \<times> event list" where
  "rename_subscribe_group E group_id new_name c tr =
     (case raise_for_no_sessdata c of
        Inl e \<Rightarrow> (Inl e, tr)
      | Inr _ \<Rightarrow>
          (case raise_for_no_bili_jct c of
             Inl e \<Rightarrow> (Inl e, tr)
           | Inr _ \<Rightarrow>
               (case api_entry E ''operate'' ''rename_subscribe_group'' of
                  Inl e \<Rightarrow> (Inl e, tr)
                | Inr api \<Rightarrow>
                    send E ''POST'' api None
                      (Some [(''tagid'', PInt group_id), (''name'', PStr new_name)])
                      (Some c) tr)))"

definition set_subscribe_group ::
  "env \<Rightarrow> int list \<Rightarrow> int list \<Rightarrow> Credential \<Rightarrow> event list \<Rightarrow> (error + pyval) \<times> event list" where
  "set_subscribe_group E uids group_ids c tr =
     (case raise_for_no_sessdata c of
        Inl e \<Rightarrow> (Inl e, tr)
      | Inr _ \<Rightarrow>
          (case raise_for_no_bili_jct c of
             Inl e \<Rightarrow> (Inl e, tr)
           | Inr _ \<Rightarrow>
               (case api_entry E ''operate'' ''set_user_subscribe_group'' of
                  Inl e \<Rightarrow> (Inl e, tr)
                | Inr api \<Rightarrow>
                    send E ''POST'' api None
                      (Some [(''fids'', PStr (join E '','' uids)),
                             (''tagids'', PStr (join E '','' group_ids))])
                      (Some c) tr)))"

definition get_self_history ::
  "env \<Rightarrow> int \<Rightarrow> int \<Rightarrow> Credential option \<Rightarrow> event list \<Rightarrow> (error + pyval) \<times> event list" where
  "get_self_history E page_num per_page_item c tr =
     (let c' = (case c of None \<Rightarrow> Credential_init | Some x \<Rightarrow> x) in
        case raise_for_no_sessdata c' of
          Inl e \<Rightarrow> (Inl e, tr)
        | Inr _ \<Rightarrow>
            (case api_entry E ''info'' ''history'' of
               Inl e \<Rightarrow> (Inl e, tr)
             | Inr api \<Rightarrow>
                 send E ''GET'' api
                   (Some [(''pn'', PInt page_num), (''ps'', PInt per_page_item)]) None
                   (Some c') tr))"

definition get_self_coins ::
  "env \<Rightarrow> Credential option \<Rightarrow> event list \<Rightarrow> (error + pyval) \<times> event list" where
  "get_self_coins E c tr =
     (let c' = (case c of None \<Rightarrow> Credential_init | Some x \<Rightarrow> x) in
        case raise_for_no_sessdata c' of
          Inl e \<Rightarrow> (Inl e, tr)
        | Inr _ \<Rightarrow>
            (case raise_for_no_dedeuserid c' of
               Inl e \<Rightarrow> (Inl e, tr)
             | Inr _ \<Rightarrow>
                 (case api_entry E ''info'' ''get_coins'' of
                    Inl e \<Rightarrow> (Inl e, tr)
                  | Inr api \<Rightarrow>
                      (case send E ''GET'' api None None (Some c') tr of
                         (Inl e, tr') \<Rightarrow> (Inl e, tr')
                       | (Inr r, tr') \<Rightarrow> (getitem r ''money'', tr')))))"

section \<open>Notions used to state the properties\<close>


text \<open>The calls of \<open>request\<close> in a trace.\<close>

fun is_request :: "event \<Rightarrow> bool" where
  "is_request (Request r) = True"
| "is_request (Sleep_ms n) = False"

definition requests_in :: "event list \<Rightarrow> nat" where
  "requests_in tr = length (filter is_request tr)"

text \<open>
  \<^verbatim>\<open>channel["meta"]["season_id" if self.is_new else "series_id"]\<close> taken on its own,
  when both subscripts succeed, and the test \<^verbatim>\<open>type_id == self.id_\<close> on it.
\<close>

definition channel_type_id :: "int \<Rightarrow> pyval \<Rightarrow> pyval option" where
  "channel_type_id new channel =
     (case getitem channel ''meta'' of
        Inl e \<Rightarrow> None
      | Inr mt \<Rightarrow>
          (case getitem mt (if new \<noteq> 0 then ''season_id'' else ''series_id'') of
             Inl e \<Rightarrow> None
           | Inr type_id \<Rightarrow> Some type_id))"

definition channel_matches :: "int \<Rightarrow> int \<Rightarrow> pyval \<Rightarrow> bool" where
  "channel_matches new i channel =
     (case channel_type_id new channel of None \<Rightarrow> False | Some type_id \<Rightarrow> py_eq_int type_id i)"

text \<open>
  The lookups of the caller's own identity in a trace: the calls \<open>get_self_info\<close>
  issues, a GET of the URL \<open>u\<close> of its endpoint with neither parameters nor data.
\<close>

definition is_self_info_request :: "pyval \<Rightarrow> event \<Rightarrow> bool" where
  "is_self_info_request u ev =
     (case ev of
        Request r \<Rightarrow>
          rq_method r = ''GET'' \<and> rq_url r = u \<and> rq_params r = None \<and> rq_data r = None
      | Sleep_ms n \<Rightarrow> False)"

definition self_info_lookups :: "pyval \<Rightarrow> event list \<Rightarrow> nat" where
  "self_info_lookups u tr = length (filter (is_self_info_request u) tr)"

text \<open>
  Messages sent one after the other on one instance, each call starting from the
  instance and the trace the call before it left, whether that call returned or raised.
\<close>

fun send_msgs :: "env \<Rightarrow> User \<Rightarrow> string list \<Rightarrow> event list \<Rightarrow> User \<times> event list" where
  "send_msgs E self [] tr = (self, tr)"
| "send_msgs E self (t # ts) tr =
     (case send_msg E self t tr of (r, self', tr') \<Rightarrow> send_msgs E self' ts tr')"

section \<open>Concrete collaborators\<close>

text \<open>
  An endpoint table, a decoder and network layers on which the functions above can be
  run. The URLs are made up: only their being different matters.
\<close>

definition endpoint :: "string \<Rightarrow> string \<times> pyval" where
  "endpoint name = (name, PDict [(''url'', PStr (''https://api/'' @ name))])"

definition demo_API :: pyval where
  "demo_API =
     PDict
       [(''info'',
           PDict (map endpoint
             [''info'', ''relation'', ''upstat'', ''live'', ''video'', ''audio'', ''article'',
              ''article_lists'', ''dynamic'', ''bangumi'', ''followings'', ''followers'',
              ''overview'', ''channel_video_series'', ''channel_video_season'',
              ''channel_list'', ''pugv'', ''my_info'', ''history'', ''get_coins''])),
        (''operate'',
           PDict (map endpoint
             [''modify'', ''send_msg'', ''create_subscribe_group'', ''del_subscribe_group'',
              ''rename_subscribe_group'', ''set_user_subscribe_group'']))]"

definition demo_loads :: "string \<Rightarrow> error + pyval" where
  "demo_loads s =
     (if s = ''{}'' then Inr (PDict [])
      else if s = ''1'' then Inr (PInt 1)
      else Inl JSONDecodeError)"

text \<open>
  The channels of the demo user: one season (id 11) and one series (id 22), with the
  total the envelope reports as a parameter.
\<close>

definition demo_channels :: "pyval \<Rightarrow> pyval" where
  "demo_channels tot =
     PDict
       [(''items_lists'',
           PDict
             [(''page'', PDict [(''page_num'', PInt 1), (''page_size'', PInt 1), (''total'', tot)]),
              (''seasons_list'',
                 PList [PDict [(''meta'', PDict [(''season_id'', PInt 11), (''name'', PStr ''a'')])]]),
              (''series_list'',
                 PList [PDict [(''meta'', PDict [(''series_id'', PInt 22), (''name'', PStr ''b'')])]])])]"

text \<open>
  Two feeds: the one of user 1 has an element with both encoded fields, the one of any
  other user has an element without them.
\<close>

definition demo_feed :: "pyval \<Rightarrow> pyval" where
  "demo_feed host =
     (if host = PInt 1 then
        PDict
          [(''cards'',
              PList [PDict [(''desc'', PInt 3), (''card'', PStr ''{}''), (''extend_json'', PStr ''1'')]]),
           (''next_offset'', PInt 5)]
      else PDict [(''cards'', PList [PDict [(''desc'', PInt 3)]]), (''next_offset'', PInt 5)])"

definition demo_request :: "pyval \<Rightarrow> event list \<Rightarrow> http_request \<Rightarrow> error + pyval" where
  "demo_request tot tr r =
     (if rq_url r = PStr ''https://api/channel_list'' then Inr (demo_channels tot)
      else if rq_url r = PStr ''https://api/my_info'' then Inr (PDict [(''mid'', PInt 7)])
      else if rq_url r = PStr ''https://api/dynamic'' then
        (case rq_params r of
           None \<Rightarrow> Inl (ResponseCodeException (-400))
         | Some ps \<Rightarrow>
             (case map_of ps ''host_uid'' of
                None \<Rightarrow> Inl (ResponseCodeException (-400))
              | Some h \<Rightarrow> Inr (demo_feed h)))
      else Inr (PDict []))"

definition demo_env :: "pyval \<Rightarrow> env" where
  "demo_env tot =
     \<lparr>API = demo_API, request = demo_request tot, json_loads = demo_loads,
      json_dumps = (\<lambda>v. ''{}''), join = (\<lambda>sep xs. []), time_time = (\<lambda>tr. 0)\<rparr>"

text \<open>A network layer that is down: every call fails.\<close>

definition offline_env :: env where
  "offline_env = (demo_env (PInt 0))\<lparr>request := (\<lambda>tr r. Inl NetworkException)\<rparr>"

text \<open>A network layer that answers every call with \<^verbatim>\<open>None\<close>.\<close>

definition null_env :: env where
  "null_env = (demo_env (PInt 0))\<lparr>request := (\<lambda>tr r. Inr PNone)\<rparr>"

definition logged_in :: Credential where
  "logged_in =
     \<lparr>sessdata = Some ''s'', bili_jct = Some ''j'', buvid3 = None, dedeuserid = None\<rparr>"

text \<open>
  What the demo user 1, without credentials, leaves in an empty trace by
  \<open>get_channel_list\<close> when the total is 2; and, for the demo user 2 with the
  credential \<open>logged_in\<close>, the lookup of the own identity and the message posted.
\<close>

definition demo_channel_list_trace :: "event list" where
  "demo_channel_list_trace =
     [Request \<lparr>rq_method = ''GET'', rq_url = PStr ''https://api/channel_list'',
                rq_params = Some [(''mid'', PInt 1), (''page_num'', PInt 1), (''page_size'', PInt 1)],
                rq_data = None, rq_credential = Some Credential_init\<rparr>,
       Sleep_ms 500,
       Request \<lparr>rq_method = ''GET'', rq_url = PStr ''https://api/channel_list'',
                rq_params = Some [(''mid'', PInt 1), (''page_num'', PInt 1), (''page_size'', PInt 2)],
                rq_data = None, rq_credential = Some Credential_init\<rparr>]"

definition demo_lookup :: event where
  "demo_lookup =
     Request \<lparr>rq_method = ''GET'', rq_url = PStr ''https://api/my_info'', rq_params = None,
                rq_data = None, rq_credential = Some logged_in\<rparr>"

definition demo_post :: event where
  "demo_post =
     Request \<lparr>rq_method = ''POST'', rq_url = PStr ''https://api/send_msg'', rq_params = None,
                rq_data = Some
                  [(''msg[sender_uid]'', PInt 7), (''msg[receiver_id]'', PInt 2),
                   (''msg[receiver_type]'', PInt 1), (''msg[msg_type]'', PInt 1),
                   (''msg[msg_status]'', PInt 0), (''msg[content]'', PStr ''{}''),
                   (''msg[dev_id]'', PStr ''B9A37BF3-AA9D-4076-A4D3-366AC8C4C5DB''),
                   (''msg[new_face_version]'', PStr ''0''), (''msg[timestamp]'', PInt 0),
                   (''from_filework'', PInt 0), (''build'', PInt 0), (''mobi_app'', PStr ''web'')],
                rq_credential = Some logged_in\<rparr>"

section \<open>Properties\<close>

lemmas demo_defs =
  demo_env_def demo_API_def endpoint_def demo_request_def demo_loads_def demo_channels_def
  demo_feed_def offline_env_def logged_in_def User_init_def Credential_init_def

subsection \<open>Credential checks come first\<close>

text \<open>
  C1. Each operation that needs the session and the write token (relation change,
  private message, creating, renaming and deleting a subscribe group, assigning users
  to groups) called with a credential that lacks one of them raises the exception of
  the first missing one, \<open>sessdata\<close> being checked before \<open>bili_jct\<close>, and leaves
  the trace as it was: no call of \<open>request\<close>, and no change of the instance. The
  functions that need the session alone (\<open>get_self_history\<close>, \<open>get_self_coins\<close>,
  and \<open>get_self_info\<close> once its endpoint is found in the table) behave the same when
  \<open>sessdata\<close> is missing.
\<close>

theorem missing_credential_fails_before_request:
  assumes "sessdata c = None \<or> bili_jct c = None"
    and "e = (if sessdata c = None then CredentialNoSessdataException
              else CredentialNoBiliJctException)"
    and "credential self = c"
  shows "modify_relation E self relation tr = (Inl e, tr)
       \<and> send_msg E self text' tr = (Inl e, self, tr)
       \<and> create_subscribe_group E name c tr = (Inl e, tr)
       \<and> rename_subscribe_group E group_id new_name c tr = (Inl e, tr)
       \<and> delete_subscribe_group E group_id c tr = (Inl e, tr)
       \<and> set_subscribe_group E uids group_ids c tr = (Inl e, tr)
       \<and> (sessdata c = None \<longrightarrow>
            get_self_history E page_num per_page_item (Some c) tr = (Inl e, tr)
          \<and> get_self_coins E (Some c) tr = (Inl e, tr)
          \<and> (\<forall>api. api_entry E ''info'' ''my_info'' = Inr api \<longrightarrow>
                 get_self_info E c tr = (Inl e, tr)))"
  using assms
  by (auto simp: modify_relation_def send_msg_def create_subscribe_group_def
      rename_subscribe_group_def delete_subscribe_group_def set_subscribe_group_def
      get_self_history_def get_self_coins_def get_self_info_def
      raise_for_no_sessdata_def raise_for_no_bili_jct_def split: option.splits)

theorem missing_credential_fails_before_request_witness:
  "modify_relation (demo_env (PInt 0)) (User_init 1 None) BLOCK [] =
     (Inl CredentialNoSessdataException, [])
   \<and> send_msg (demo_env (PInt 0)) (User_init 1 None) ''hi'' [] =
     (Inl CredentialNoSessdataException, User_init 1 None, [])
   \<and> get_self_info (demo_env (PInt 0)) Credential_init [] =
     (Inl CredentialNoSessdataException, [])
   \<and> create_subscribe_group (demo_env (PInt 0)) ''g'' (logged_in\<lparr>bili_jct := None\<rparr>) [] =
     (Inl CredentialNoBiliJctException, [])
   \<and> send_msg (demo_env (PInt 0)) (User_init 1 (Some (logged_in\<lparr>bili_jct := None\<rparr>))) ''hi'' [] =
     (Inl CredentialNoBiliJctException,
      User_init 1 (Some (logged_in\<lparr>bili_jct := None\<rparr>)), [])"
  using missing_credential_fails_before_request
          [of Credential_init CredentialNoSessdataException "User_init 1 None"
              "demo_env (PInt 0)" BLOCK "[]" "''hi''" "''g''" 0 "''h''" "[]" "[]" 1 1]
        missing_credential_fails_before_request
          [of "logged_in\<lparr>bili_jct := None\<rparr>" CredentialNoBiliJctException
              "User_init 1 (Some (logged_in\<lparr>bili_jct := None\<rparr>))" "demo_env (PInt 0)"
              BLOCK "[]" "''hi''" "''g''" 0 "''h''" "[]" "[]" 1 1]
  by (simp add: demo_defs api_entry_def)

text \<open>
  C6. \<open>get_up_stat\<close> checks the write token \<open>bili_jct\<close> and nothing else: without
  it the call raises \<open>CredentialNoBiliJctException\<close> and the trace is unchanged; with
  it (and the endpoint in the table) exactly one GET is issued, whatever \<open>sessdata\<close>
  is, and its answer is the result.
\<close>

theorem up_stat_requires_write_token_only:
  "(bili_jct (credential self) = None \<longrightarrow>
      get_up_stat E self tr = (Inl CredentialNoBiliJctException, tr))
   \<and> (bili_jct (credential self) \<noteq> None \<and> api_entry E ''info'' ''upstat'' = Inr api
        \<and> getitem api ''url'' = Inr u \<longrightarrow>
      get_up_stat E self tr =
        (request E tr
           \<lparr>rq_method = ''GET'', rq_url = u, rq_params = Some [(''mid'', PInt (uid self))],
            rq_data = None, rq_credential = Some (credential self)\<rparr>,
         tr @ [Request
           \<lparr>rq_method = ''GET'', rq_url = u, rq_params = Some [(''mid'', PInt (uid self))],
            rq_data = None, rq_credential = Some (credential self)\<rparr>]))"
  by (auto simp: get_up_stat_def raise_for_no_bili_jct_def send_def call_request_def
      split: option.splits)

theorem up_stat_requires_write_token_only_witness:
  "get_up_stat (demo_env (PInt 0)) (User_init 5 None) [] = (Inl CredentialNoBiliJctException, [])
   \<and> sessdata (logged_in\<lparr>sessdata := None\<rparr>) = None
   \<and> get_up_stat (demo_env (PInt 0)) (User_init 5 (Some (logged_in\<lparr>sessdata := None\<rparr>))) [] =
        (Inr (PDict []),
         [Request
           \<lparr>rq_method = ''GET'', rq_url = PStr ''https://api/upstat'',
            rq_params = Some [(''mid'', PInt 5)],
            rq_data = None, rq_credential = Some (logged_in\<lparr>sessdata := None\<rparr>)\<rparr>])"
  using up_stat_requires_write_token_only
          [of "User_init 5 None" "demo_env (PInt 0)" "[]" PNone PNone]
        up_stat_requires_write_token_only
          [of "User_init 5 (Some (logged_in\<lparr>sessdata := None\<rparr>))" "demo_env (PInt 0)" "[]"
              "PDict [(''url'', PStr ''https://api/upstat'')]" "PStr ''https://api/upstat''"]
  by (simp add: demo_defs api_entry_def)

subsection \<open>The two calls of the channel list\<close>

lemma page_total_demo: "page_total (demo_channels t) = Inr t"
  by (simp add: page_total_def demo_channels_def)

text \<open>
  C2. When the endpoint is in the table, the first call (page size 1) returns a payload
  and that payload holds an integer total \<open>n\<close> under \<open>items_lists/page/total\<close>,
  \<open>get_channel_list\<close> performs exactly this: the first call, a pause of half a
  second, and a second call that differs from the first in the page size only, which is
  1 when \<open>n = 0\<close> and \<open>n\<close> otherwise. Its result is whatever the second call
  returns.
\<close>

theorem channel_list_two_step:
  assumes "api_entry E ''info'' ''channel_list'' = Inr api"
    and "getitem api ''url'' = Inr u"
    and "probe = \<lparr>rq_method = ''GET'', rq_url = u,
                   rq_params = Some [(''mid'', PInt (uid self)), (''page_num'', PInt 1),
                                     (''page_size'', PInt 1)],
                   rq_data = None, rq_credential = Some (credential self)\<rparr>"
    and "request E tr probe = Inr res"
    and "page_total res = Inr (PInt n)"
    and "second = \<lparr>rq_method = ''GET'', rq_url = u,
                   rq_params = Some [(''mid'', PInt (uid self)), (''page_num'', PInt 1),
                                     (''page_size'', PInt (if n = 0 then 1 else n))],
                   rq_data = None, rq_credential = Some (credential self)\<rparr>"
  shows "get_channel_list E self tr =
           (request E (tr @ [Request probe, Sleep_ms 500]) second,
            tr @ [Request probe, Sleep_ms 500, Request second])"
  using assms
  by (simp add: get_channel_list_def send_def call_request_def)

theorem channel_list_two_step_witness:
  "get_channel_list (demo_env (PInt 0)) (User_init 1 None) [] =
     (Inr (demo_channels (PInt 0)),
      [Request \<lparr>rq_method = ''GET'', rq_url = PStr ''https://api/channel_list'',
                rq_params = Some [(''mid'', PInt 1), (''page_num'', PInt 1), (''page_size'', PInt 1)],
                rq_data = None, rq_credential = Some Credential_init\<rparr>,
       Sleep_ms 500,
       Request \<lparr>rq_method = ''GET'', rq_url = PStr ''https://api/channel_list'',
                rq_params = Some [(''mid'', PInt 1), (''page_num'', PInt 1), (''page_size'', PInt 1)],
                rq_data = None, rq_credential = Some Credential_init\<rparr>])
   \<and> get_channel_list (demo_env (PInt 3)) (User_init 1 None) [] =
     (Inr (demo_channels (PInt 3)),
      [Request \<lparr>rq_method = ''GET'', rq_url = PStr ''https://api/channel_list'',
                rq_params = Some [(''mid'', PInt 1), (''page_num'', PInt 1), (''page_size'', PInt 1)],
                rq_data = None, rq_credential = Some Credential_init\<rparr>,
       Sleep_ms 500,
       Request \<lparr>rq_method = ''GET'', rq_url = PStr ''https://api/channel_list'',
                rq_params = Some [(''mid'', PInt 1), (''page_num'', PInt 1), (''page_size'', PInt 3)],
                rq_data = None, rq_credential = Some Credential_init\<rparr>])"
  using channel_list_two_step
          [of "demo_env (PInt 0)" "PDict [(''url'', PStr ''https://api/channel_list'')]"
              "PStr ''https://api/channel_list''" _ "User_init 1 None" "[]"
              "demo_channels (PInt 0)" 0, OF _ _ refl _ _ refl]
        channel_list_two_step
          [of "demo_env (PInt 3)" "PDict [(''url'', PStr ''https://api/channel_list'')]"
              "PStr ''https://api/channel_list''" _ "User_init 1 None" "[]"
              "demo_channels (PInt 3)" 3, OF _ _ refl _ _ refl]
  by (simp add: demo_env_def demo_API_def endpoint_def demo_request_def User_init_def
       api_entry_def page_total_demo)

subsection \<open>The course list is fetched without the credential\<close>

text \<open>
  C10. \<open>get_cheese\<close> passes no credential to \<open>request\<close>: two instances with the
  same uid get the same result and leave the same trace, whatever their credentials
  are, and the one call issued carries the method GET, the URL of the table, the uid as
  its only parameter and no credential.
\<close>

theorem cheese_ignores_credential:
  "(uid a = uid b \<longrightarrow> get_cheese E a tr = get_cheese E b tr)
   \<and> (api_entry E ''info'' ''pugv'' = Inr api \<and> getitem api ''url'' = Inr u \<longrightarrow>
        get_cheese E a tr =
          (request E tr
             \<lparr>rq_method = ''GET'', rq_url = u, rq_params = Some [(''mid'', PInt (uid a))],
              rq_data = None, rq_credential = None\<rparr>,
           tr @ [Request
             \<lparr>rq_method = ''GET'', rq_url = u, rq_params = Some [(''mid'', PInt (uid a))],
              rq_data = None, rq_credential = None\<rparr>]))"
  by (auto simp: get_cheese_def send_def call_request_def split: sum.splits)

theorem cheese_ignores_credential_witness:
  "uid (User_init 4 None) = uid (User_init 4 (Some logged_in))
   \<and> credential (User_init 4 None) \<noteq> credential (User_init 4 (Some logged_in))
   \<and> get_cheese (demo_env (PInt 0)) (User_init 4 None) [] =
       get_cheese (demo_env (PInt 0)) (User_init 4 (Some logged_in)) []
   \<and> get_cheese (demo_env (PInt 0)) (User_init 4 (Some logged_in)) [] =
       (Inr (PDict []),
        [Request \<lparr>rq_method = ''GET'', rq_url = PStr ''https://api/pugv'',
                  rq_params = Some [(''mid'', PInt 4)], rq_data = None, rq_credential = None\<rparr>])"
  using cheese_ignores_credential
          [of "User_init 4 None" "User_init 4 (Some logged_in)" "demo_env (PInt 0)" "[]"
              "PDict [(''url'', PStr ''https://api/pugv'')]" "PStr ''https://api/pugv''"]
        cheese_ignores_credential
          [of "User_init 4 (Some logged_in)" "User_init 4 (Some logged_in)" "demo_env (PInt 0)" "[]"
              "PDict [(''url'', PStr ''https://api/pugv'')]" "PStr ''https://api/pugv''"]
  by (simp add: demo_env_def demo_API_def endpoint_def demo_request_def User_init_def
       api_entry_def logged_in_def Credential_init_def)

subsection \<open>How parameters are written into a call\<close>

lemma api_entry_demo_info:
  "name \<in> set [''info'', ''relation'', ''upstat'', ''live'', ''video'', ''audio'', ''article'',
              ''article_lists'', ''dynamic'', ''bangumi'', ''followings'', ''followers'',
              ''overview'', ''channel_video_series'', ''channel_video_season'',
              ''channel_list'', ''pugv'', ''my_info'', ''history'', ''get_coins''] \<Longrightarrow>
   api_entry (demo_env t) ''info'' name = Inr (PDict [(''url'', PStr (''https://api/'' @ name))])"
  by (auto simp: api_entry_def demo_env_def demo_API_def endpoint_def)

lemma api_entry_demo_operate:
  "name \<in> set [''modify'', ''send_msg'', ''create_subscribe_group'', ''del_subscribe_group'',
              ''rename_subscribe_group'', ''set_user_subscribe_group''] \<Longrightarrow>
   api_entry (demo_env t) ''operate'' name = Inr (PDict [(''url'', PStr (''https://api/'' @ name))])"
  by (auto simp: api_entry_def demo_env_def demo_API_def endpoint_def)

text \<open>
  C8. With the endpoint in the table, the one call each of these methods issues has
  exactly the parameters shown: the flag \<open>need_top\<close> of the dynamics feed is the
  integer 1 or 0; the flag \<open>desc\<close> of the following and follower lists is the string
  \<open>desc\<close> or \<open>asc\<close>; and a member of an enumeration is written as its value
  (\<open>VideoOrder_FAVORATE\<close> as \<open>stow\<close>, \<open>AudioOrder_FAVORATE\<close> as 3,
  \<open>BLOCK\<close> as 5, \<open>ChannelOrder_CHANGE\<close> as the string \<open>true\<close>), never as its
  name.
\<close>

theorem parameters_serialized_per_endpoint:
  assumes "getitem api ''url'' = Inr u"
  shows
   "(api_entry E ''info'' ''dynamic'' = Inr api \<longrightarrow>
       snd (get_dynamics E self offset need_top tr) =
         tr @ [Request \<lparr>rq_method = ''GET'', rq_url = u,
                 rq_params = Some [(''host_uid'', PInt (uid self)), (''offset_dynamic_id'', offset),
                                   (''need_top'', PInt (if need_top then 1 else 0))],
                 rq_data = None, rq_credential = Some (credential self)\<rparr>])
    \<and> (api_entry E ''info'' ''followings'' = Inr api \<longrightarrow>
       snd (get_followings E self pn desc tr) =
         tr @ [Request \<lparr>rq_method = ''GET'', rq_url = u,
                 rq_params = Some [(''vmid'', PInt (uid self)), (''ps'', PInt 20), (''pn'', PInt pn),
                                   (''order'', PStr (if desc then ''desc'' else ''asc''))],
                 rq_data = None, rq_credential = Some (credential self)\<rparr>])
    \<and> (api_entry E ''info'' ''followers'' = Inr api \<longrightarrow>
       snd (get_followers E self pn desc tr) =
         tr @ [Request \<lparr>rq_method = ''GET'', rq_url = u,
                 rq_params = Some [(''vmid'', PInt (uid self)), (''ps'', PInt 20), (''pn'', PInt pn),
                                   (''order'', PStr (if desc then ''desc'' else ''asc''))],
                 rq_data = None, rq_credential = Some (credential self)\<rparr>])
    \<and> (api_entry E ''info'' ''video'' = Inr api \<longrightarrow>
       snd (get_videos E self tid pn ps keyword vorder tr) =
         tr @ [Request \<lparr>rq_method = ''GET'', rq_url = u,
                 rq_params = Some [(''mid'', PInt (uid self)), (''ps'', PInt ps), (''tid'', PInt tid),
                                   (''pn'', PInt pn), (''keyword'', PStr keyword),
                                   (''order'', case vorder of
                                        VideoOrder_PUBDATE \<Rightarrow> PStr ''pubdate''
                                      | VideoOrder_FAVORATE \<Rightarrow> PStr ''stow''
                                      | VideoOrder_VIEW \<Rightarrow> PStr ''click'')],
                 rq_data = None, rq_credential = Some (credential self)\<rparr>])
    \<and> (api_entry E ''info'' ''audio'' = Inr api \<longrightarrow>
       snd (get_audios E self aorder pn ps tr) =
         tr @ [Request \<lparr>rq_method = ''GET'', rq_url = u,
                 rq_params = Some [(''uid'', PInt (uid self)), (''ps'', PInt ps), (''pn'', PInt pn),
                                   (''order'', case aorder of
                                        AudioOrder_PUBDATE \<Rightarrow> PInt 1
                                      | AudioOrder_VIEW \<Rightarrow> PInt 2
                                      | AudioOrder_FAVORATE \<Rightarrow> PInt 3)],
                 rq_data = None, rq_credential = Some (credential self)\<rparr>])
    \<and> (api_entry E ''info'' ''article'' = Inr api \<longrightarrow>
       snd (get_articles E self pn arorder ps tr) =
         tr @ [Request \<lparr>rq_method = ''GET'', rq_url = u,
                 rq_params = Some [(''mid'', PInt (uid self)), (''ps'', PInt ps), (''pn'', PInt pn),
                                   (''sort'', case arorder of
                                        ArticleOrder_PUBDATE \<Rightarrow> PStr ''publish_time''
                                      | ArticleOrder_FAVORATE \<Rightarrow> PStr ''fav''
                                      | ArticleOrder_VIEW \<Rightarrow> PStr ''view'')],
                 rq_data = None, rq_credential = Some (credential self)\<rparr>])
    \<and> (api_entry E ''info'' ''article_lists'' = Inr api \<longrightarrow>
       snd (get_article_list E self alorder tr) =
         tr @ [Request \<lparr>rq_method = ''GET'', rq_url = u,
                 rq_params = Some [(''mid'', PInt (uid self)),
                                   (''sort'', case alorder of
                                        ArticleListOrder_LATEST \<Rightarrow> PInt 0
                                      | ArticleListOrder_VIEW \<Rightarrow> PInt 1)],
                 rq_data = None, rq_credential = Some (credential self)\<rparr>])
    \<and> (api_entry E ''info'' ''bangumi'' = Inr api \<longrightarrow>
       snd (get_subscribed_bangumi E self pn btype tr) =
         tr @ [Request \<lparr>rq_method = ''GET'', rq_url = u,
                 rq_params = Some [(''vmid'', PInt (uid self)), (''pn'', PInt pn), (''ps'', PInt 15),
                                   (''type'', case btype of
                                        BangumiType_BANGUMI \<Rightarrow> PInt 1
                                      | BangumiType_DRAMA \<Rightarrow> PInt 2)],
                 rq_data = None, rq_credential = Some (credential self)\<rparr>])
    \<and> (api_entry E ''info'' ''channel_video_season'' = Inr api \<longrightarrow>
       snd (get_channel_videos_season E self sid corder pn ps tr) =
         tr @ [Request \<lparr>rq_method = ''GET'', rq_url = u,
                 rq_params = Some [(''mid'', PInt (uid self)), (''season_id'', PInt sid),
                                   (''sort_reverse'', case corder of
                                        ChannelOrder_DEFAULT \<Rightarrow> PStr ''false''
                                      | ChannelOrder_CHANGE \<Rightarrow> PStr ''true''),
                                   (''page_num'', PInt pn), (''page_size'', PInt ps)],
                 rq_data = None, rq_credential = Some (credential self)\<rparr>])
    \<and> (api_entry E ''operate'' ''modify'' = Inr api \<and> sessdata (credential self) \<noteq> None
        \<and> bili_jct (credential self) \<noteq> None \<longrightarrow>
       snd (modify_relation E self relation tr) =
         tr @ [Request \<lparr>rq_method = ''POST'', rq_url = u, rq_params = None,
                 rq_data = Some [(''fid'', PInt (uid self)),
                                 (''act'', case relation of
                                      SUBSCRIBE \<Rightarrow> PInt 1 | UNSUBSCRIBE \<Rightarrow> PInt 2
                                    | SUBSCRIBE_SECRETLY \<Rightarrow> PInt 3 | BLOCK \<Rightarrow> PInt 5
                                    | UNBLOCK \<Rightarrow> PInt 6 | REMOVE_FANS \<Rightarrow> PInt 7),
                                 (''re_src'', PInt 11)],
                 rq_credential = Some (credential self)\<rparr>])"
proof -
  have dyn: "api_entry E ''info'' ''dynamic'' = Inr api \<Longrightarrow>
       snd (get_dynamics E self offset need_top tr) =
         tr @ [Request \<lparr>rq_method = ''GET'', rq_url = u,
                 rq_params = Some [(''host_uid'', PInt (uid self)), (''offset_dynamic_id'', offset),
                                   (''need_top'', PInt (if need_top then 1 else 0))],
                 rq_data = None, rq_credential = Some (credential self)\<rparr>]"
    using assms
    by (simp add: get_dynamics_def send_def call_request_def split: sum.splits)
  have vid: "VideoOrder_value vorder = (case vorder of
                                        VideoOrder_PUBDATE \<Rightarrow> PStr ''pubdate''
                                      | VideoOrder_FAVORATE \<Rightarrow> PStr ''stow''
                                      | VideoOrder_VIEW \<Rightarrow> PStr ''click'')"
    by (cases vorder) simp_all
  have aud: "AudioOrder_value aorder = (case aorder of
                                        AudioOrder_PUBDATE \<Rightarrow> PInt 1
                                      | AudioOrder_VIEW \<Rightarrow> PInt 2
                                      | AudioOrder_FAVORATE \<Rightarrow> PInt 3)"
    by (cases aorder) simp_all
  have art: "ArticleOrder_value arorder = (case arorder of
                                        ArticleOrder_PUBDATE \<Rightarrow> PStr ''publish_time''
                                      | ArticleOrder_FAVORATE \<Rightarrow> PStr ''fav''
                                      | ArticleOrder_VIEW \<Rightarrow> PStr ''view'')"
    by (cases arorder) simp_all
  have artl: "ArticleListOrder_value alorder = (case alorder of
                                        ArticleListOrder_LATEST \<Rightarrow> PInt 0
                                      | ArticleListOrder_VIEW \<Rightarrow> PInt 1)"
    by (cases alorder) simp_all
  have ban: "BangumiType_value btype = (case btype of
                                        BangumiType_BANGUMI \<Rightarrow> PInt 1
                                      | BangumiType_DRAMA \<Rightarrow> PInt 2)"
    by (cases btype) simp_all
  have cho: "ChannelOrder_value corder = (case corder of
                                        ChannelOrder_DEFAULT \<Rightarrow> PStr ''false''
                                      | ChannelOrder_CHANGE \<Rightarrow> PStr ''true'')"
    by (cases corder) simp_all
  have rel: "RelationType_value relation = (case relation of
                                      SUBSCRIBE \<Rightarrow> PInt 1 | UNSUBSCRIBE \<Rightarrow> PInt 2
                                    | SUBSCRIBE_SECRETLY \<Rightarrow> PInt 3 | BLOCK \<Rightarrow> PInt 5
                                    | UNBLOCK \<Rightarrow> PInt 6 | REMOVE_FANS \<Rightarrow> PInt 7)"
    by (cases relation) simp_all
  have modi: "api_entry E ''operate'' ''modify'' = Inr api \<Longrightarrow> sessdata (credential self) \<noteq> None
        \<Longrightarrow> bili_jct (credential self) \<noteq> None \<Longrightarrow>
       snd (modify_relation E self relation tr) =
         tr @ [Request \<lparr>rq_method = ''POST'', rq_url = u, rq_params = None,
                 rq_data = Some [(''fid'', PInt (uid self)),
                                 (''act'', RelationType_value relation),
                                 (''re_src'', PInt 11)],
                 rq_credential = Some (credential self)\<rparr>]"
    using assms
    by (auto simp: modify_relation_def send_def call_request_def raise_for_no_sessdata_def
        raise_for_no_bili_jct_def)
  show ?thesis
    using assms dyn modi
    by (simp add: get_followings_def get_followers_def get_videos_def get_audios_def
        get_articles_def get_article_list_def get_subscribed_bangumi_def
        get_channel_videos_season_def send_def call_request_def
        flip: vid aud art artl ban cho rel)
qed

theorem parameters_serialized_per_endpoint_witness:
  "snd (get_dynamics (demo_env (PInt 0)) (User_init 1 None) (PInt 0) True []) =
       [Request \<lparr>rq_method = ''GET'', rq_url = PStr ''https://api/dynamic'',
          rq_params = Some [(''host_uid'', PInt 1), (''offset_dynamic_id'', PInt 0), (''need_top'', PInt 1)],
          rq_data = None, rq_credential = Some Credential_init\<rparr>]
   \<and> snd (get_followings (demo_env (PInt 0)) (User_init 1 None) 2 False []) =
       [Request \<lparr>rq_method = ''GET'', rq_url = PStr ''https://api/followings'',
          rq_params = Some [(''vmid'', PInt 1), (''ps'', PInt 20), (''pn'', PInt 2), (''order'', PStr ''asc'')],
          rq_data = None, rq_credential = Some Credential_init\<rparr>]
   \<and> snd (get_followers (demo_env (PInt 0)) (User_init 1 None) 2 True []) =
       [Request \<lparr>rq_method = ''GET'', rq_url = PStr ''https://api/followers'',
          rq_params = Some [(''vmid'', PInt 1), (''ps'', PInt 20), (''pn'', PInt 2), (''order'', PStr ''desc'')],
          rq_data = None, rq_credential = Some Credential_init\<rparr>]
   \<and> snd (get_videos (demo_env (PInt 0)) (User_init 1 None) 0 1 30 [] VideoOrder_FAVORATE []) =
       [Request \<lparr>rq_method = ''GET'', rq_url = PStr ''https://api/video'',
          rq_params = Some [(''mid'', PInt 1), (''ps'', PInt 30), (''tid'', PInt 0), (''pn'', PInt 1), (''keyword'', PStr []), (''order'', PStr ''stow'')],
          rq_data = None, rq_credential = Some Credential_init\<rparr>]
   \<and> snd (get_audios (demo_env (PInt 0)) (User_init 1 None) AudioOrder_FAVORATE 1 30 []) =
       [Request \<lparr>rq_method = ''GET'', rq_url = PStr ''https://api/audio'',
          rq_params = Some [(''uid'', PInt 1), (''ps'', PInt 30), (''pn'', PInt 1), (''order'', PInt 3)],
          rq_data = None, rq_credential = Some Credential_init\<rparr>]
   \<and> snd (get_articles (demo_env (PInt 0)) (User_init 1 None) 1 ArticleOrder_PUBDATE 30 []) =
       [Request \<lparr>rq_method = ''GET'', rq_url = PStr ''https://api/article'',
          rq_params = Some [(''mid'', PInt 1), (''ps'', PInt 30), (''pn'', PInt 1), (''sort'', PStr ''publish_time'')],
          rq_data = None, rq_credential = Some Credential_init\<rparr>]
   \<and> snd (get_article_list (demo_env (PInt 0)) (User_init 1 None) ArticleListOrder_VIEW []) =
       [Request \<lparr>rq_method = ''GET'', rq_url = PStr ''https://api/article_lists'',
          rq_params = Some [(''mid'', PInt 1), (''sort'', PInt 1)],
          rq_data = None, rq_credential = Some Credential_init\<rparr>]
   \<and> snd (get_subscribed_bangumi (demo_env (PInt 0)) (User_init 1 None) 1 BangumiType_DRAMA []) =
       [Request \<lparr>rq_method = ''GET'', rq_url = PStr ''https://api/bangumi'',
          rq_params = Some [(''vmid'', PInt 1), (''pn'', PInt 1), (''ps'', PInt 15), (''type'', PInt 2)],
          rq_data = None, rq_credential = Some Credential_init\<rparr>]
   \<and> snd (get_channel_videos_season (demo_env (PInt 0)) (User_init 1 None) 11 ChannelOrder_CHANGE 1 100 []) =
       [Request \<lparr>rq_method = ''GET'', rq_url = PStr ''https://api/channel_video_season'',
          rq_params = Some [(''mid'', PInt 1), (''season_id'', PInt 11), (''sort_reverse'', PStr ''true''), (''page_num'', PInt 1), (''page_size'', PInt 100)],
          rq_data = None, rq_credential = Some Credential_init\<rparr>]
   \<and> snd (modify_relation (demo_env (PInt 0)) (User_init 1 (Some logged_in)) BLOCK []) =
       [Request \<lparr>rq_method = ''POST'', rq_url = PStr ''https://api/modify'',
          rq_params = None,
          rq_data = Some [(''fid'', PInt 1), (''act'', PInt 5), (''re_src'', PInt 11)], rq_credential = Some logged_in\<rparr>]"
proof -
  have f0: "snd (get_dynamics (demo_env (PInt 0)) (User_init 1 None) (PInt 0) True []) =
       [Request \<lparr>rq_method = ''GET'', rq_url = PStr ''https://api/dynamic'',
          rq_params = Some [(''host_uid'', PInt 1), (''offset_dynamic_id'', PInt 0), (''need_top'', PInt 1)],
          rq_data = None, rq_credential = Some Credential_init\<rparr>]"
    using parameters_serialized_per_endpoint
            [where api = "PDict [(''url'', PStr ''https://api/dynamic'')]" and u = "PStr ''https://api/dynamic''"
               and E = "demo_env (PInt 0)" and tr = "[]" and self = "User_init 1 None" and offset = "PInt 0" and need_top = True]
    by (simp add: api_entry_demo_info User_init_def logged_in_def Credential_init_def)
  have f1: "snd (get_followings (demo_env (PInt 0)) (User_init 1 None) 2 False []) =
       [Request \<lparr>rq_method = ''GET'', rq_url = PStr ''https://api/followings'',
          rq_params = Some [(''vmid'', PInt 1), (''ps'', PInt 20), (''pn'', PInt 2), (''order'', PStr ''asc'')],
          rq_data = None, rq_credential = Some Credential_init\<rparr>]"
    using parameters_serialized_per_endpoint
            [where api = "PDict [(''url'', PStr ''https://api/followings'')]" and u = "PStr ''https://api/followings''"
               and E = "demo_env (PInt 0)" and tr = "[]" and self = "User_init 1 None" and pn = 2 and desc = False]
    by (simp add: api_entry_demo_info User_init_def logged_in_def Credential_init_def)
  have f2: "snd (get_followers (demo_env (PInt 0)) (User_init 1 None) 2 True []) =
       [Request \<lparr>rq_method = ''GET'', rq_url = PStr ''https://api/followers'',
          rq_params = Some [(''vmid'', PInt 1), (''ps'', PInt 20), (''pn'', PInt 2), (''order'', PStr ''desc'')],
          rq_data = None, rq_credential = Some Credential_init\<rparr>]"
    using parameters_serialized_per_endpoint
            [where api = "PDict [(''url'', PStr ''https://api/followers'')]" and u = "PStr ''https://api/followers''"
               and E = "demo_env (PInt 0)" and tr = "[]" and self = "User_init 1 None" and pn = 2 and desc = True]
    by (simp add: api_entry_demo_info User_init_def logged_in_def Credential_init_def)
  have f3: "snd (get_videos (demo_env (PInt 0)) (User_init 1 None) 0 1 30 [] VideoOrder_FAVORATE []) =
       [Request \<lparr>rq_method = ''GET'', rq_url = PStr ''https://api/video'',
          rq_params = Some [(''mid'', PInt 1), (''ps'', PInt 30), (''tid'', PInt 0), (''pn'', PInt 1), (''keyword'', PStr []), (''order'', PStr ''stow'')],
          rq_data = None, rq_credential = Some Credential_init\<rparr>]"
    using parameters_serialized_per_endpoint
            [where api = "PDict [(''url'', PStr ''https://api/video'')]" and u = "PStr ''https://api/video''"
               and E = "demo_env (PInt 0)" and tr = "[]" and self = "User_init 1 None" and tid = 0 and pn = 1 and ps = 30 and keyword = "[]" and vorder = VideoOrder_FAVORATE]
    by (simp add: api_entry_demo_info User_init_def logged_in_def Credential_init_def)
  have f4: "snd (get_audios (demo_env (PInt 0)) (User_init 1 None) AudioOrder_FAVORATE 1 30 []) =
       [Request \<lparr>rq_method = ''GET'', rq_url = PStr ''https://api/audio'',
          rq_params = Some [(''uid'', PInt 1), (''ps'', PInt 30), (''pn'', PInt 1), (''order'', PInt 3)],
          rq_data = None, rq_credential = Some Credential_init\<rparr>]"
    using parameters_serialized_per_endpoint
            [where api = "PDict [(''url'', PStr ''https://api/audio'')]" and u = "PStr ''https://api/audio''"
               and E = "demo_env (PInt 0)" and tr = "[]" and self = "User_init 1 None" and pn = 1 and ps = 30 and aorder = AudioOrder_FAVORATE]
    by (simp add: api_entry_demo_info User_init_def logged_in_def Credential_init_def)
  have f5: "snd (get_articles (demo_env (PInt 0)) (User_init 1 None) 1 ArticleOrder_PUBDATE 30 []) =
       [Request \<lparr>rq_method = ''GET'', rq_url = PStr ''https://api/article'',
          rq_params = Some [(''mid'', PInt 1), (''ps'', PInt 30), (''pn'', PInt 1), (''sort'', PStr ''publish_time'')],
          rq_data = None, rq_credential = Some Credential_init\<rparr>]"
    using parameters_serialized_per_endpoint
            [where api = "PDict [(''url'', PStr ''https://api/article'')]" and u = "PStr ''https://api/article''"
               and E = "demo_env (PInt 0)" and tr = "[]" and self = "User_init 1 None" and pn = 1 and ps = 30 and arorder = ArticleOrder_PUBDATE]
    by (simp add: api_entry_demo_info User_init_def logged_in_def Credential_init_def)
  have f6: "snd (get_article_list (demo_env (PInt 0)) (User_init 1 None) ArticleListOrder_VIEW []) =
       [Request \<lparr>rq_method = ''GET'', rq_url = PStr ''https://api/article_lists'',
          rq_params = Some [(''mid'', PInt 1), (''sort'', PInt 1)],
          rq_data = None, rq_credential = Some Credential_init\<rparr>]"
    using parameters_serialized_per_endpoint
            [where api = "PDict [(''url'', PStr ''https://api/article_lists'')]" and u = "PStr ''https://api/article_lists''"
               and E = "demo_env (PInt 0)" and tr = "[]" and self = "User_init 1 None" and alorder = ArticleListOrder_VIEW]
    by (simp add: api_entry_demo_info User_init_def logged_in_def Credential_init_def)
  have f7: "snd (get_subscribed_bangumi (demo_env (PInt 0)) (User_init 1 None) 1 BangumiType_DRAMA []) =
       [Request \<lparr>rq_method = ''GET'', rq_url = PStr ''https://api/bangumi'',
          rq_params = Some [(''vmid'', PInt 1), (''pn'', PInt 1), (''ps'', PInt 15), (''type'', PInt 2)],
          rq_data = None, rq_credential = Some Credential_init\<rparr>]"
    using parameters_serialized_per_endpoint
            [where api = "PDict [(''url'', PStr ''https://api/bangumi'')]" and u = "PStr ''https://api/bangumi''"
               and E = "demo_env (PInt 0)" and tr = "[]" and self = "User_init 1 None" and pn = 1 and btype = BangumiType_DRAMA]
    by (simp add: api_entry_demo_info User_init_def logged_in_def Credential_init_def)
  have f8: "snd (get_channel_videos_season (demo_env (PInt 0)) (User_init 1 None) 11 ChannelOrder_CHANGE 1 100 []) =
       [Request \<lparr>rq_method = ''GET'', rq_url = PStr ''https://api/channel_video_season'',
          rq_params = Some [(''mid'', PInt 1), (''season_id'', PInt 11), (''sort_reverse'', PStr ''true''), (''page_num'', PInt 1), (''page_size'', PInt 100)],
          rq_data = None, rq_credential = Some Credential_init\<rparr>]"
    using parameters_serialized_per_endpoint
            [where api = "PDict [(''url'', PStr ''https://api/channel_video_season'')]" and u = "PStr ''https://api/channel_video_season''"
               and E = "demo_env (PInt 0)" and tr = "[]" and self = "User_init 1 None" and sid = 11 and pn = 1 and ps = 100 and corder = ChannelOrder_CHANGE]
    by (simp add: api_entry_demo_info User_init_def logged_in_def Credential_init_def)
  have f9: "snd (modify_relation (demo_env (PInt 0)) (User_init 1 (Some logged_in)) BLOCK []) =
       [Request \<lparr>rq_method = ''POST'', rq_url = PStr ''https://api/modify'',
          rq_params = None,
          rq_data = Some [(''fid'', PInt 1), (''act'', PInt 5), (''re_src'', PInt 11)], rq_credential = Some logged_in\<rparr>]"
    using parameters_serialized_per_endpoint
            [where api = "PDict [(''url'', PStr ''https://api/modify'')]" and u = "PStr ''https://api/modify''"
               and E = "demo_env (PInt 0)" and tr = "[]" and self = "User_init 1 (Some logged_in)" and relation = BLOCK]
    by (simp add: api_entry_demo_operate User_init_def logged_in_def Credential_init_def)
  show ?thesis
    using f0 f1 f2 f3 f4 f5 f6 f7 f8 f9 by simp
qed

subsection \<open>The videos of a channel\<close>

lemma demo_env_sel:
  "API (demo_env t) = demo_API"
  "request (demo_env t) = demo_request t"
  "json_loads (demo_env t) = demo_loads"
  "time_time (demo_env t) tr = 0"
  by (simp_all add: demo_env_def)

lemma ChannelSeries_init_fields:
  assumes "ChannelSeries_init E u type' i c meta' tr0 = (Inr cs, tr1)"
  shows "is_new cs = ChannelSeriesType_value type' \<and> owner cs = User_init u c \<and> cs_id cs = i
         \<and> cs_uid cs = u \<and> cs_credential cs = c"
  using assms
  by (auto simp: ChannelSeries_init_def Let_def split: if_splits prod.splits sum.splits)

text \<open>
  C9. For a \<open>ChannelSeries\<close> whose construction succeeded, \<open>get_videos\<close> goes by
  the kind it was built with. For \<open>SEASON\<close> it issues the call of the season
  endpoint, whose parameter \<open>sort_reverse\<close> is the value of the order given. For
  \<open>SERIES\<close> it issues the call of the series endpoint, which has no parameter for
  the order: the result and the trace are the same for any two orders.
\<close>

theorem channel_videos_dispatch_on_kind:
  assumes "ChannelSeries_init E u type' i c meta' tr0 = (Inr cs, tr1)"
    and "getitem api ''url'' = Inr url"
  shows
   "(type' = SEASON \<and> api_entry E ''info'' ''channel_video_season'' = Inr api \<longrightarrow>
       ChannelSeries_get_videos E cs order pn ps tr =
         (request E tr
            \<lparr>rq_method = ''GET'', rq_url = url,
             rq_params = Some [(''mid'', PInt u), (''season_id'', PInt i),
                               (''sort_reverse'', ChannelOrder_value order),
                               (''page_num'', PInt pn), (''page_size'', PInt ps)],
             rq_data = None, rq_credential = Some (credential (User_init u c))\<rparr>,
          tr @ [Request
            \<lparr>rq_method = ''GET'', rq_url = url,
             rq_params = Some [(''mid'', PInt u), (''season_id'', PInt i),
                               (''sort_reverse'', ChannelOrder_value order),
                               (''page_num'', PInt pn), (''page_size'', PInt ps)],
             rq_data = None, rq_credential = Some (credential (User_init u c))\<rparr>]))
    \<and> (type' = SERIES \<and> api_entry E ''info'' ''channel_video_series'' = Inr api \<longrightarrow>
       ChannelSeries_get_videos E cs order pn ps tr =
         (request E tr
            \<lparr>rq_method = ''GET'', rq_url = url,
             rq_params = Some [(''mid'', PInt u), (''series_id'', PInt i),
                               (''pn'', PInt pn), (''ps'', PInt ps)],
             rq_data = None, rq_credential = Some (credential (User_init u c))\<rparr>,
          tr @ [Request
            \<lparr>rq_method = ''GET'', rq_url = url,
             rq_params = Some [(''mid'', PInt u), (''series_id'', PInt i),
                               (''pn'', PInt pn), (''ps'', PInt ps)],
             rq_data = None, rq_credential = Some (credential (User_init u c))\<rparr>]))
    \<and> (type' = SERIES \<longrightarrow>
       ChannelSeries_get_videos E cs order pn ps tr =
       ChannelSeries_get_videos E cs order' pn ps tr)"
proof -
  have f: "is_new cs = ChannelSeriesType_value type'" "owner cs = User_init u c" "cs_id cs = i"
    using ChannelSeries_init_fields [OF assms(1)] by simp_all
  have uo: "uid (User_init u c) = u"
    by (simp add: User_init_def)
  show ?thesis
    using assms(2)
    by (simp add: ChannelSeries_get_videos_def f get_channel_videos_season_def
        get_channel_videos_series_def send_def call_request_def uo)
qed

theorem channel_videos_dispatch_on_kind_witness:
  "ChannelSeries_get_videos (demo_env (PInt 2))
      \<lparr>cs_uid = 1, is_new = 1, cs_id = 11, owner = User_init 1 None, cs_credential = None,
       meta = PDict [(''season_id'', PInt 11), (''name'', PStr ''a'')]\<rparr>
      ChannelOrder_CHANGE 1 100 [] =
     (Inr (PDict []),
      [Request \<lparr>rq_method = ''GET'', rq_url = PStr ''https://api/channel_video_season'',
                rq_params = Some [(''mid'', PInt 1), (''season_id'', PInt 11),
                                  (''sort_reverse'', PStr ''true''),
                                  (''page_num'', PInt 1), (''page_size'', PInt 100)],
                rq_data = None, rq_credential = Some Credential_init\<rparr>])
   \<and> ChannelSeries_get_videos (demo_env (PInt 2))
      \<lparr>cs_uid = 1, is_new = 0, cs_id = 22, owner = User_init 1 None, cs_credential = None,
       meta = PDict [(''series_id'', PInt 22)]\<rparr>
      ChannelOrder_CHANGE 1 100 [] =
     (Inr (PDict []),
      [Request \<lparr>rq_method = ''GET'', rq_url = PStr ''https://api/channel_video_series'',
                rq_params = Some [(''mid'', PInt 1), (''series_id'', PInt 22),
                                  (''pn'', PInt 1), (''ps'', PInt 100)],
                rq_data = None, rq_credential = Some Credential_init\<rparr>])
   \<and> ChannelSeries_get_videos (demo_env (PInt 2))
      \<lparr>cs_uid = 1, is_new = 0, cs_id = 22, owner = User_init 1 None, cs_credential = None,
       meta = PDict [(''series_id'', PInt 22)]\<rparr>
      ChannelOrder_CHANGE 1 100 [] =
     ChannelSeries_get_videos (demo_env (PInt 2))
      \<lparr>cs_uid = 1, is_new = 0, cs_id = 22, owner = User_init 1 None, cs_credential = None,
       meta = PDict [(''series_id'', PInt 22)]\<rparr>
      ChannelOrder_DEFAULT 1 100 []"
proof -
  have i1: "ChannelSeries_init (demo_env (PInt 2)) 1 SEASON 11 None
              (PDict [(''season_id'', PInt 11), (''name'', PStr ''a'')]) [] =
            (Inr \<lparr>cs_uid = 1, is_new = 1, cs_id = 11, owner = User_init 1 None,
                  cs_credential = None,
                  meta = PDict [(''season_id'', PInt 11), (''name'', PStr ''a'')]\<rparr>, [])"
    by (simp add: ChannelSeries_init_def)
  have i2: "ChannelSeries_init (demo_env (PInt 2)) 1 SERIES 22 None
              (PDict [(''series_id'', PInt 22)]) [] =
            (Inr \<lparr>cs_uid = 1, is_new = 0, cs_id = 22, owner = User_init 1 None,
                  cs_credential = None, meta = PDict [(''series_id'', PInt 22)]\<rparr>, [])"
    by (simp add: ChannelSeries_init_def)
  have u1: "getitem (PDict [(''url'', PStr ''https://api/channel_video_season'')]) ''url'' =
              Inr (PStr ''https://api/channel_video_season'')"
    by simp
  have u2: "getitem (PDict [(''url'', PStr ''https://api/channel_video_series'')]) ''url'' =
              Inr (PStr ''https://api/channel_video_series'')"
    by simp
  note a = channel_videos_dispatch_on_kind
             [OF i1 u1, where order = ChannelOrder_CHANGE and pn = 1 and ps = 100 and tr = "[]",
              THEN conjunct1]
  note b = channel_videos_dispatch_on_kind
             [OF i2 u2, where order = ChannelOrder_CHANGE and pn = 1 and ps = 100 and tr = "[]",
              THEN conjunct2, THEN conjunct1]
  note c = channel_videos_dispatch_on_kind
             [OF i2 u2, where order = ChannelOrder_CHANGE and order' = ChannelOrder_DEFAULT
                and pn = 1 and ps = 100 and tr = "[]", THEN conjunct2, THEN conjunct2]
  have a': "api_entry (demo_env (PInt 2)) ''info'' ''channel_video_season'' =
              Inr (PDict [(''url'', PStr ''https://api/channel_video_season'')])"
       and b': "api_entry (demo_env (PInt 2)) ''info'' ''channel_video_series'' =
              Inr (PDict [(''url'', PStr ''https://api/channel_video_series'')])"
    by (simp_all add: api_entry_demo_info)
  show ?thesis
  proof (intro conjI)
    show "ChannelSeries_get_videos (demo_env (PInt 2))
      \<lparr>cs_uid = 1, is_new = 0, cs_id = 22, owner = User_init 1 None, cs_credential = None,
       meta = PDict [(''series_id'', PInt 22)]\<rparr>
      ChannelOrder_CHANGE 1 100 [] =
     ChannelSeries_get_videos (demo_env (PInt 2))
      \<lparr>cs_uid = 1, is_new = 0, cs_id = 22, owner = User_init 1 None, cs_credential = None,
       meta = PDict [(''series_id'', PInt 22)]\<rparr>
      ChannelOrder_DEFAULT 1 100 []"
      using c by simp
  qed (use a b a' b' in \<open>simp_all add: User_init_def Credential_init_def demo_env_sel
        demo_request_def\<close>)
qed

subsection \<open>Decoding the cards of the dynamics feed\<close>













subsection \<open>Constructing a ChannelSeries\<close>

lemma get_channel_list_requests:
  assumes "get_channel_list E self tr = (Inr cl, tr')"
  shows "requests_in tr' = requests_in tr + 2"
  using assms
  by (auto simp: get_channel_list_def send_def call_request_def requests_in_def
      split: sum.splits prod.splits)

lemma channel_matches_meta:
  assumes "channel_matches new i ch"
  obtains kvs v where "getitem ch ''meta'' = Inr (PDict kvs)"
    and "map_of kvs (if new \<noteq> 0 then ''season_id'' else ''series_id'') = Some v"
    and "py_eq_int v i"
proof -
  from assms obtain mt v where mt: "getitem ch ''meta'' = Inr mt"
    and v: "getitem mt (if new \<noteq> 0 then ''season_id'' else ''series_id'') = Inr v"
    and eq: "py_eq_int v i"
    by (auto simp: channel_matches_def channel_type_id_def split: sum.splits option.splits)
  from v obtain kvs where "mt = PDict kvs"
    by (cases mt) auto
  with mt v eq that show thesis
    by (auto split: option.splits)
qed

text \<open>The loop keeps \<open>m\<close> or replaces it by the meta of an element that matches.\<close>

lemma scan_channels_result:
  assumes "scan_channels new i chans m = Inr m'"
  shows "m' = m \<or> (\<exists>ch\<in>set chans. channel_matches new i ch \<and> getitem ch ''meta'' = Inr m')"
  using assms
proof (induction chans arbitrary: m)
  case Nil
  then show ?case by simp
next
  case (Cons ch chans)
  from Cons.prems obtain mt v where mt: "getitem ch ''meta'' = Inr mt"
    and v: "getitem mt (if new \<noteq> 0 then ''season_id'' else ''series_id'') = Inr v"
    and rest: "scan_channels new i chans (if py_eq_int v i then mt else m) = Inr m'"
    by (auto split: sum.splits)
  have here: "py_eq_int v i \<Longrightarrow> channel_matches new i ch"
    using mt v by (simp add: channel_matches_def channel_type_id_def)
  from Cons.IH [OF rest] show ?case
    using here mt by (auto split: if_splits)
qed

lemma scan_channels_wellformed:
  assumes "\<forall>ch\<in>set chans. channel_type_id new ch \<noteq> None"
  shows "\<exists>m'. scan_channels new i chans m = Inr m'
           \<and> (if \<exists>ch\<in>set chans. channel_matches new i ch
               then \<exists>ch\<in>set chans. channel_matches new i ch \<and> getitem ch ''meta'' = Inr m'
               else m' = m)"
  using assms
proof (induction chans arbitrary: m)
  case Nil
  then show ?case by simp
next
  case (Cons ch chans)
  from Cons.prems obtain mt v where mt: "getitem ch ''meta'' = Inr mt"
    and v: "getitem mt (if new \<noteq> 0 then ''season_id'' else ''series_id'') = Inr v"
    by (auto simp: channel_type_id_def split: sum.splits)
  have here: "py_eq_int v i \<longleftrightarrow> channel_matches new i ch"
    using mt v by (simp add: channel_matches_def channel_type_id_def)
  from Cons.prems have "\<forall>ch\<in>set chans. channel_type_id new ch \<noteq> None"
    by simp
  from Cons.IH [OF this, of "if py_eq_int v i then mt else m"]
  obtain m' where m': "scan_channels new i chans (if py_eq_int v i then mt else m) = Inr m'"
    and rest: "if \<exists>ch\<in>set chans. channel_matches new i ch
               then \<exists>ch\<in>set chans. channel_matches new i ch \<and> getitem ch ''meta'' = Inr m'
               else m' = (if py_eq_int v i then mt else m)"
    by blast
  have "scan_channels new i (ch # chans) m = Inr m'"
    using mt v m' by simp
  moreover have "if \<exists>x\<in>set (ch # chans). channel_matches new i x
               then \<exists>x\<in>set (ch # chans). channel_matches new i x \<and> getitem x ''meta'' = Inr m'
               else m' = m"
    using rest here mt by (auto split: if_splits)
  ultimately show ?case by blast
qed

lemma demo_channel_list:
  "get_channel_list (demo_env (PInt 2)) (User_init 1 None) [] =
     (Inr (demo_channels (PInt 2)),
      demo_channel_list_trace)"
  by (simp add: get_channel_list_def api_entry_demo_info send_def call_request_def
      demo_env_sel demo_request_def page_total_demo User_init_def demo_channel_list_trace_def)

lemma demo_channels_items:
  "getitem (demo_channels t) ''items_lists'' =
     Inr (PDict
       [(''page'', PDict [(''page_num'', PInt 1), (''page_size'', PInt 1), (''total'', t)]),
        (''seasons_list'',
           PList [PDict [(''meta'', PDict [(''season_id'', PInt 11), (''name'', PStr ''a'')])]]),
        (''series_list'',
           PList [PDict [(''meta'', PDict [(''series_id'', PInt 22), (''name'', PStr ''b'')])]])])"
  by (simp add: demo_channels_def)

lemma demo_init_found:
  "ChannelSeries_init (demo_env (PInt 2)) 1 SEASON 11 None PNone [] =
     (Inr \<lparr>cs_uid = 1, is_new = 1, cs_id = 11, owner = User_init 1 None, cs_credential = None,
            meta = PDict [(''season_id'', PInt 11), (''name'', PStr ''a'')]\<rparr>,
      demo_channel_list_trace)"
  by (simp add: ChannelSeries_init_def demo_channel_list demo_channels_items)

text \<open>
  The claim C4 as the spec states it has a construction without metadata perform exactly
  one call of the network layer when an entry matches. The constructor gets the list
  from \<open>get_channel_list\<close>, which calls twice: for the demo user, whose list holds
  the season 11, the construction succeeds and its trace holds two calls with the pause
  between them.
\<close>

theorem construction_without_meta_calls_twice:
  "fst (ChannelSeries_init (demo_env (PInt 2)) 1 SEASON 11 None PNone []) =
     Inr \<lparr>cs_uid = 1, is_new = 1, cs_id = 11, owner = User_init 1 None, cs_credential = None,
            meta = PDict [(''season_id'', PInt 11), (''name'', PStr ''a'')]\<rparr>
   \<and> snd (ChannelSeries_init (demo_env (PInt 2)) 1 SEASON 11 None PNone []) =
      demo_channel_list_trace
   \<and> requests_in (snd (ChannelSeries_init (demo_env (PInt 2)) 1 SEASON 11 None PNone [])) = 2"
  by (simp add: demo_init_found requests_in_def demo_channel_list_trace_def)

text \<open>
  C4, amended. (1) A construction with metadata that is not \<open>None\<close> succeeds with the
  metadata given and leaves the trace as it was: no call. (2) A construction without
  metadata, when \<open>get_channel_list\<close> of the owner succeeds and the list of the kind
  asked for is a list whose elements all hold an id under \<open>meta\<close>, performs exactly
  the two calls of \<open>get_channel_list\<close>; it succeeds with the metadata of a matching
  element when some element's id equals the id given, and raises \<open>ValueError\<close> (the
  constructor's "not found") when none does.
\<close>

theorem channel_series_construction:
  "(meta' \<noteq> PNone \<longrightarrow>
      ChannelSeries_init E u type' i c meta' tr =
        (Inr \<lparr>cs_uid = u, is_new = ChannelSeriesType_value type', cs_id = i,
              owner = User_init u c, cs_credential = c, meta = meta'\<rparr>, tr))
   \<and> (get_channel_list E (User_init u c) tr = (Inr cl, tr')
        \<and> getitem cl ''items_lists'' = Inr il
        \<and> getitem il (case type' of SEASON \<Rightarrow> ''seasons_list'' | SERIES \<Rightarrow> ''series_list'') =
            Inr (PList chans)
        \<and> (\<forall>ch\<in>set chans. channel_type_id (ChannelSeriesType_value type') ch \<noteq> None) \<longrightarrow>
      requests_in tr' = requests_in tr + 2
      \<and> ((\<exists>ch\<in>set chans. channel_matches (ChannelSeriesType_value type') i ch) \<longrightarrow>
           (\<exists>m. ChannelSeries_init E u type' i c PNone tr =
                  (Inr \<lparr>cs_uid = u, is_new = ChannelSeriesType_value type', cs_id = i,
                        owner = User_init u c, cs_credential = c, meta = m\<rparr>, tr')
                \<and> (\<exists>ch\<in>set chans. channel_matches (ChannelSeriesType_value type') i ch
                                   \<and> getitem ch ''meta'' = Inr m)))
      \<and> ((\<forall>ch\<in>set chans. \<not> channel_matches (ChannelSeriesType_value type') i ch) \<longrightarrow>
           ChannelSeries_init E u type' i c PNone tr = (Inl ValueError, tr')))"
proof (intro conjI impI)
  assume "meta' \<noteq> PNone"
  then show "ChannelSeries_init E u type' i c meta' tr =
        (Inr \<lparr>cs_uid = u, is_new = ChannelSeriesType_value type', cs_id = i,
              owner = User_init u c, cs_credential = c, meta = meta'\<rparr>, tr)"
    by (simp add: ChannelSeries_init_def)
next
  assume a: "get_channel_list E (User_init u c) tr = (Inr cl, tr')
        \<and> getitem cl ''items_lists'' = Inr il
        \<and> getitem il (case type' of SEASON \<Rightarrow> ''seasons_list'' | SERIES \<Rightarrow> ''series_list'') =
            Inr (PList chans)
        \<and> (\<forall>ch\<in>set chans. channel_type_id (ChannelSeriesType_value type') ch \<noteq> None)"
  let ?new = "ChannelSeriesType_value type'"
  have look: "(if ?new \<noteq> 0 then ''seasons'' else ''series'') @ ''_list'' =
          (case type' of SEASON \<Rightarrow> ''seasons_list'' | SERIES \<Rightarrow> ''series_list'')"
    by (cases type') simp_all
  obtain m where m: "scan_channels ?new i chans PNone = Inr m"
    and rest: "if \<exists>ch\<in>set chans. channel_matches ?new i ch
               then \<exists>ch\<in>set chans. channel_matches ?new i ch \<and> getitem ch ''meta'' = Inr m
               else m = PNone"
    using scan_channels_wellformed [of chans ?new i PNone] a by blast
  have init: "ChannelSeries_init E u type' i c PNone tr =
          (if m = PNone then (Inl ValueError, tr')
           else (Inr \<lparr>cs_uid = u, is_new = ?new, cs_id = i, owner = User_init u c,
                      cs_credential = c, meta = m\<rparr>, tr'))"
    using a m by (simp add: ChannelSeries_init_def Let_def look)
  show "requests_in tr' = requests_in tr + 2"
    using a get_channel_list_requests by blast
  {
    assume ex: "\<exists>ch\<in>set chans. channel_matches ?new i ch"
    with rest obtain ch where ch: "ch \<in> set chans" "channel_matches ?new i ch"
      "getitem ch ''meta'' = Inr m"
      by auto
    from ch(2,3) have "m \<noteq> PNone"
      by (auto elim!: channel_matches_meta)
    with init ch
    show "\<exists>m. ChannelSeries_init E u type' i c PNone tr =
                  (Inr \<lparr>cs_uid = u, is_new = ?new, cs_id = i,
                        owner = User_init u c, cs_credential = c, meta = m\<rparr>, tr')
                \<and> (\<exists>ch\<in>set chans. channel_matches ?new i ch \<and> getitem ch ''meta'' = Inr m)"
      by auto
  }
  {
    assume "\<forall>ch\<in>set chans. \<not> channel_matches ?new i ch"
    with rest have "m = PNone"
      by auto
    with init show "ChannelSeries_init E u type' i c PNone tr = (Inl ValueError, tr')"
      by simp
  }
qed

theorem channel_series_construction_witness:
  "ChannelSeries_init (demo_env (PInt 2)) 1 SEASON 11 None (PDict [(''season_id'', PInt 11)]) [] =
     (Inr \<lparr>cs_uid = 1, is_new = 1, cs_id = 11, owner = User_init 1 None, cs_credential = None,
           meta = PDict [(''season_id'', PInt 11)]\<rparr>, [])
   \<and> ChannelSeries_init (demo_env (PInt 2)) 1 SEASON 11 None PNone [] =
     (Inr \<lparr>cs_uid = 1, is_new = 1, cs_id = 11, owner = User_init 1 None, cs_credential = None,
            meta = PDict [(''season_id'', PInt 11), (''name'', PStr ''a'')]\<rparr>,
      demo_channel_list_trace)
   \<and> requests_in
       demo_channel_list_trace = 2
   \<and> ChannelSeries_init (demo_env (PInt 2)) 1 SEASON 12 None PNone [] =
     (Inl ValueError,
      demo_channel_list_trace)"
proof -
  let ?chans = "[PDict [(''meta'', PDict [(''season_id'', PInt 11), (''name'', PStr ''a'')])]]"
  have wf: "\<forall>ch\<in>set ?chans. channel_type_id (ChannelSeriesType_value SEASON) ch \<noteq> None"
    by (simp add: channel_type_id_def)
  have found: "\<exists>ch\<in>set ?chans. channel_matches (ChannelSeriesType_value SEASON) 11 ch"
    by (simp add: channel_matches_def channel_type_id_def)
  have none: "\<forall>ch\<in>set ?chans. \<not> channel_matches (ChannelSeriesType_value SEASON) 12 ch"
    by (simp add: channel_matches_def channel_type_id_def)
  have given: "PDict [(''season_id'', PInt 11)] \<noteq> PNone"
    by simp
  have lst: "getitem (PDict
       [(''page'', PDict [(''page_num'', PInt 1), (''page_size'', PInt 1), (''total'', PInt 2)]),
        (''seasons_list'', PList ?chans),
        (''series_list'',
           PList [PDict [(''meta'', PDict [(''series_id'', PInt 22), (''name'', PStr ''b'')])]])])
       (case SEASON of SEASON \<Rightarrow> ''seasons_list'' | SERIES \<Rightarrow> ''series_list'') =
     Inr (PList ?chans)"
    by simp
  note a = channel_series_construction
             [where E = "demo_env (PInt 2)" and u = 1 and type' = SEASON and i = 11 and c = None
                and tr = "[]", THEN conjunct1, THEN mp, OF given]
  note b = channel_series_construction
             [where type' = SEASON and i = 11, THEN conjunct2, THEN mp,
              OF conjI [OF demo_channel_list conjI [OF demo_channels_items conjI [OF lst wf]]]]
  note c = channel_series_construction
             [where type' = SEASON and i = 12, THEN conjunct2, THEN mp,
              OF conjI [OF demo_channel_list conjI [OF demo_channels_items conjI [OF lst wf]]]]
  have b1: "requests_in
       demo_channel_list_trace = 2"
    using b [THEN conjunct1] by (simp add: requests_in_def demo_channel_list_trace_def)
  have b2: "ChannelSeries_init (demo_env (PInt 2)) 1 SEASON 11 None PNone [] =
     (Inr \<lparr>cs_uid = 1, is_new = 1, cs_id = 11, owner = User_init 1 None, cs_credential = None,
            meta = PDict [(''season_id'', PInt 11), (''name'', PStr ''a'')]\<rparr>,
      demo_channel_list_trace)"
    using b [THEN conjunct2, THEN conjunct1, THEN mp, OF found]
    by (simp add: demo_init_found)
  have c1: "ChannelSeries_init (demo_env (PInt 2)) 1 SEASON 12 None PNone [] =
     (Inl ValueError,
      demo_channel_list_trace)"
    using c [THEN conjunct2, THEN conjunct2, THEN mp, OF none] by simp
  show ?thesis
    using a b1 b2 c1 by simp
qed

text \<open>
  The claim C5 as the spec states it makes the metadata non-empty after every successful
  construction. The constructor tests \<^verbatim>\<open>meta == None\<close> only: given the empty
  dictionary, it succeeds, without any call, and the metadata is the empty dictionary.
\<close>

theorem explicit_empty_meta_is_kept:
  "ChannelSeries_init (demo_env (PInt 2)) 1 SEASON 11 None (PDict []) [] =
     (Inr \<lparr>cs_uid = 1, is_new = 1, cs_id = 11, owner = User_init 1 None, cs_credential = None,
           meta = PDict []\<rparr>, [])"
  by (simp add: ChannelSeries_init_def)

text \<open>
  C5, amended. After a successful construction the metadata is never \<open>None\<close>. When
  metadata other than \<open>None\<close> was given, it is that value as it was given (which may
  be an empty dictionary), and nothing was called. When none was given, it is a
  non-empty dictionary: it holds, under the id key of its kind, a value equal to the id
  the construction was given.
\<close>

theorem construction_keeps_or_finds_meta:
  assumes "ChannelSeries_init E u type' i c meta' tr = (Inr cs, tr')"
  shows "meta cs \<noteq> PNone
       \<and> (meta' \<noteq> PNone \<longrightarrow> meta cs = meta' \<and> tr' = tr)
       \<and> (meta' = PNone \<longrightarrow>
            (\<exists>kvs v. meta cs = PDict kvs \<and> kvs \<noteq> []
               \<and> map_of kvs (case type' of SEASON \<Rightarrow> ''season_id'' | SERIES \<Rightarrow> ''series_id'') = Some v
               \<and> py_eq_int v i))"
proof (cases "meta' = PNone")
  case False
  with assms show ?thesis
    by (auto simp: ChannelSeries_init_def)
next
  case True
  let ?new = "ChannelSeriesType_value type'"
  have key: "(if ?new \<noteq> 0 then ''season_id'' else ''series_id'') =
          (case type' of SEASON \<Rightarrow> ''season_id'' | SERIES \<Rightarrow> ''series_id'')"
    by (cases type') simp_all
  from assms True obtain chans where scan: "scan_channels ?new i chans PNone = Inr (meta cs)"
    and ne: "meta cs \<noteq> PNone"
    by (auto simp: ChannelSeries_init_def Let_def split: prod.splits sum.splits if_splits)
  from scan_channels_result [OF scan] ne
  obtain ch where ch: "channel_matches ?new i ch" and mt: "getitem ch ''meta'' = Inr (meta cs)"
    by auto
  from ch obtain kvs v where kvs: "getitem ch ''meta'' = Inr (PDict kvs)"
    and v: "map_of kvs (if ?new \<noteq> 0 then ''season_id'' else ''series_id'') = Some v"
    and eq: "py_eq_int v i"
    by (rule channel_matches_meta)
  have "meta cs = PDict kvs"
    using mt kvs by simp
  moreover have "kvs \<noteq> []"
    using v by auto
  ultimately show ?thesis
    using True v eq unfolding key by auto
qed

theorem construction_keeps_or_finds_meta_witness:
  "ChannelSeries_init (demo_env (PInt 2)) 1 SEASON 11 None PNone [] =
     (Inr \<lparr>cs_uid = 1, is_new = 1, cs_id = 11, owner = User_init 1 None, cs_credential = None,
            meta = PDict [(''season_id'', PInt 11), (''name'', PStr ''a'')]\<rparr>,
      demo_channel_list_trace)
   \<and> meta \<lparr>cs_uid = 1, is_new = 1, cs_id = 11, owner = User_init 1 None, cs_credential = None,
            meta = PDict [(''season_id'', PInt 11), (''name'', PStr ''a'')]\<rparr> \<noteq> PNone
   \<and> (\<exists>kvs v. meta \<lparr>cs_uid = 1, is_new = 1, cs_id = 11, owner = User_init 1 None, cs_credential = None,
            meta = PDict [(''season_id'', PInt 11), (''name'', PStr ''a'')]\<rparr> = PDict kvs \<and> kvs \<noteq> [] \<and> map_of kvs ''season_id'' = Some v
         \<and> py_eq_int v 11)"
  using construction_keeps_or_finds_meta [OF demo_init_found] demo_init_found
  by simp

subsection \<open>The cached identity of the caller\<close>

text \<open>With the identity cached, a send leaves the instance alone and looks nothing up.\<close>

lemma send_msg_cached:
  assumes "self_info self \<noteq> PNone"
    and "send_msg E self t tr = (r, self', tr')"
  shows "self' = self \<and> self_info_lookups u tr' = self_info_lookups u tr"
  using assms
  by (auto simp: send_msg_def User_get_self_info_def send_def call_request_def
      self_info_lookups_def is_self_info_request_def
      split: sum.splits prod.splits if_splits)

lemma send_msgs_cached:
  assumes "self_info self \<noteq> PNone"
  shows "send_msgs E self ts tr = (self', tr') \<Longrightarrow>
         self' = self \<and> self_info_lookups u tr' = self_info_lookups u tr"
proof (induction ts arbitrary: tr)
  case Nil
  then show ?case by simp
next
  case (Cons t ts)
  obtain r s1 t1 where one: "send_msg E self t tr = (r, s1, t1)"
    by (metis prod_cases3)
  from send_msg_cached [OF assms one]
  have s1: "s1 = self" and t1: "self_info_lookups u t1 = self_info_lookups u tr"
    by simp_all
  from Cons.prems one s1 have "send_msgs E self ts t1 = (self', tr')"
    by simp
  from Cons.IH [OF this] t1 show ?case
    by simp
qed

text \<open>The first send on a fresh instance, when the lookup answers.\<close>

lemma send_msg_first:
  assumes "self_info self = PNone"
    and "sessdata (credential self) \<noteq> None" and "bili_jct (credential self) \<noteq> None"
    and "api_entry E ''operate'' ''send_msg'' = Inr api"
    and "api_entry E ''info'' ''my_info'' = Inr my" and "getitem my ''url'' = Inr u"
    and "request E tr \<lparr>rq_method = ''GET'', rq_url = u, rq_params = None, rq_data = None,
                        rq_credential = Some (credential self)\<rparr> = Inr v"
    and "send_msg E self t tr = (r, self', tr')"
  shows "self' = self\<lparr>self_info := v\<rparr> \<and> self_info_lookups u tr' = self_info_lookups u tr + 1"
  using assms
  by (auto simp: send_msg_def User_get_self_info_def get_self_info_def send_def call_request_def
      raise_for_no_sessdata_def raise_for_no_bili_jct_def
      self_info_lookups_def is_self_info_request_def
      split: sum.splits prod.splits if_splits)

text \<open>
  A send on an instance with nothing cached, both credentials and both endpoints: the
  lookup is issued first, whatever comes after it.
\<close>

lemma send_msg_uncached_looks_up:
  assumes "self_info self = PNone"
    and "sessdata (credential self) \<noteq> None" and "bili_jct (credential self) \<noteq> None"
    and "api_entry E ''operate'' ''send_msg'' = Inr api"
    and "api_entry E ''info'' ''my_info'' = Inr my" and "getitem my ''url'' = Inr u"
  shows "\<exists>r self' rest. send_msg E self t tr =
           (r, self',
            tr @ [Request \<lparr>rq_method = ''GET'', rq_url = u, rq_params = None, rq_data = None,
                             rq_credential = Some (credential self)\<rparr>] @ rest)"
  using assms
  by (auto simp: send_msg_def User_get_self_info_def get_self_info_def send_def call_request_def
      raise_for_no_sessdata_def raise_for_no_bili_jct_def
      split: sum.splits prod.splits)

text \<open>The same send when the lookup raises or answers \<^verbatim>\<open>None\<close>: nothing is stored.\<close>

lemma send_msg_lookup_fails:
  assumes "self_info self = PNone"
    and "sessdata (credential self) \<noteq> None" and "bili_jct (credential self) \<noteq> None"
    and "api_entry E ''operate'' ''send_msg'' = Inr api"
    and "api_entry E ''info'' ''my_info'' = Inr my" and "getitem my ''url'' = Inr u"
    and "request E tr \<lparr>rq_method = ''GET'', rq_url = u, rq_params = None, rq_data = None,
                        rq_credential = Some (credential self)\<rparr> = Inl e
         \<or> request E tr \<lparr>rq_method = ''GET'', rq_url = u, rq_params = None, rq_data = None,
                        rq_credential = Some (credential self)\<rparr> = Inr PNone"
  shows "send_msg E self t tr =
           (Inl (case request E tr \<lparr>rq_method = ''GET'', rq_url = u, rq_params = None,
                                     rq_data = None, rq_credential = Some (credential self)\<rparr> of
                   Inl e' \<Rightarrow> e' | Inr v' \<Rightarrow> TypeError),
            self,
            tr @ [Request \<lparr>rq_method = ''GET'', rq_url = u, rq_params = None, rq_data = None,
                             rq_credential = Some (credential self)\<rparr>])"
  using assms
  by (auto simp: send_msg_def User_get_self_info_def get_self_info_def send_def call_request_def
      raise_for_no_sessdata_def raise_for_no_bili_jct_def)

lemma api_entry_other_network: "api_entry (E\<lparr>request := f\<rparr>) section name = api_entry E section name"
  by (simp add: api_entry_def)

lemma logged_in_sel:
  "sessdata logged_in = Some ''s''" "bili_jct logged_in = Some ''j''"
  by (simp_all add: logged_in_def)

lemma demo_env_dumps: "json_dumps (demo_env t) v = ''{}''"
  by (simp add: demo_env_def)

lemma demo_send_twice:
  "send_msgs (demo_env (PInt 0)) (User_init 2 (Some logged_in)) [''a'', ''b''] [] =
     ((User_init 2 (Some logged_in))\<lparr>self_info := PDict [(''mid'', PInt 7)]\<rparr>,
      [demo_lookup,
       demo_post,
       demo_post])"
  by (simp add: send_msg_def User_get_self_info_def get_self_info_def api_entry_demo_info
      api_entry_demo_operate send_def call_request_def raise_for_no_sessdata_def
      raise_for_no_bili_jct_def demo_env_sel demo_request_def User_init_def logged_in_sel
      demo_env_dumps demo_lookup_def demo_post_def)

text \<open>
  The claim C7 as the spec states it has any two sends on one instance look the identity
  up exactly once. \<open>__get_self_info\<close> stores what \<open>get_self_info\<close> returns, so a
  lookup that raises stores nothing: with the network down, two sends by a user who
  holds both credentials issue the lookup twice.
\<close>

theorem failed_lookup_is_repeated:
  "snd (send_msgs offline_env (User_init 2 (Some logged_in)) [''a'', ''b''] []) =
     [demo_lookup,
      demo_lookup]
   \<and> self_info_lookups (PStr ''https://api/my_info'')
        (snd (send_msgs offline_env (User_init 2 (Some logged_in)) [''a'', ''b''] [])) = 2"
  by (simp add: send_msg_def User_get_self_info_def get_self_info_def api_entry_def
      send_def call_request_def raise_for_no_sessdata_def raise_for_no_bili_jct_def
      offline_env_def demo_env_def demo_API_def endpoint_def User_init_def logged_in_sel
      self_info_lookups_def is_self_info_request_def demo_lookup_def)

text \<open>
  C7, amended. (1) On an instance whose cached identity is not \<open>None\<close>, any sequence
  of sends leaves the instance as it is and adds no identity lookup to the trace: the
  cached value is reused as long as the instance lives. (2) On a fresh instance that
  holds both credentials, with both endpoints in the table, any non-empty sequence of
  sends whose first lookup returns a value other than \<open>None\<close> adds exactly one
  identity lookup to the trace, and the instance ends with that value cached. (3) On
  such an instance, a send whose lookup raises or returns \<open>None\<close> raises (the
  exception of the lookup, or \<open>TypeError\<close> for \<open>None\<close>), adds the lookup and
  nothing else to the trace and leaves the instance as it was, with nothing cached; and
  the next send on the instance issues the lookup again before anything else.
\<close>

theorem self_info_looked_up_once:
  "(self_info self \<noteq> PNone \<longrightarrow>
      fst (send_msgs E self texts tr) = self
      \<and> self_info_lookups u (snd (send_msgs E self texts tr)) = self_info_lookups u tr)
   \<and> (self_info self = PNone \<and> texts \<noteq> []
        \<and> sessdata (credential self) \<noteq> None \<and> bili_jct (credential self) \<noteq> None
        \<and> api_entry E ''operate'' ''send_msg'' = Inr api
        \<and> api_entry E ''info'' ''my_info'' = Inr my \<and> getitem my ''url'' = Inr u
        \<and> request E tr \<lparr>rq_method = ''GET'', rq_url = u, rq_params = None, rq_data = None,
                           rq_credential = Some (credential self)\<rparr> = Inr v
        \<and> v \<noteq> PNone \<longrightarrow>
      fst (send_msgs E self texts tr) = self\<lparr>self_info := v\<rparr>
      \<and> self_info_lookups u (snd (send_msgs E self texts tr)) = self_info_lookups u tr + 1)
   \<and> (self_info self = PNone
        \<and> sessdata (credential self) \<noteq> None \<and> bili_jct (credential self) \<noteq> None
        \<and> api_entry E ''operate'' ''send_msg'' = Inr api
        \<and> api_entry E ''info'' ''my_info'' = Inr my \<and> getitem my ''url'' = Inr u
        \<and> (request E tr \<lparr>rq_method = ''GET'', rq_url = u, rq_params = None, rq_data = None,
                            rq_credential = Some (credential self)\<rparr> = Inl e
            \<or> request E tr \<lparr>rq_method = ''GET'', rq_url = u, rq_params = None, rq_data = None,
                            rq_credential = Some (credential self)\<rparr> = Inr PNone) \<longrightarrow>
      send_msg E self t tr =
        (Inl (case request E tr \<lparr>rq_method = ''GET'', rq_url = u, rq_params = None,
                                  rq_data = None, rq_credential = Some (credential self)\<rparr> of
                Inl e' \<Rightarrow> e' | Inr v' \<Rightarrow> TypeError),
         self,
         tr @ [Request \<lparr>rq_method = ''GET'', rq_url = u, rq_params = None, rq_data = None,
                          rq_credential = Some (credential self)\<rparr>])
      \<and> (\<exists>r' self' rest.
            send_msg E self t'
              (tr @ [Request \<lparr>rq_method = ''GET'', rq_url = u, rq_params = None,
                               rq_data = None, rq_credential = Some (credential self)\<rparr>]) =
            (r', self',
             (tr @ [Request \<lparr>rq_method = ''GET'', rq_url = u, rq_params = None,
                               rq_data = None, rq_credential = Some (credential self)\<rparr>])
              @ [Request \<lparr>rq_method = ''GET'', rq_url = u, rq_params = None,
                           rq_data = None, rq_credential = Some (credential self)\<rparr>] @ rest)))"
proof (intro conjI impI)
  assume c: "self_info self \<noteq> PNone"
  obtain s2 t2 where all: "send_msgs E self texts tr = (s2, t2)"
    by (metis surj_pair)
  from send_msgs_cached [OF c all, of u] all
  show "fst (send_msgs E self texts tr) = self"
    and "self_info_lookups u (snd (send_msgs E self texts tr)) = self_info_lookups u tr"
    by simp_all
next
  assume a: "self_info self = PNone \<and> texts \<noteq> []
        \<and> sessdata (credential self) \<noteq> None \<and> bili_jct (credential self) \<noteq> None
        \<and> api_entry E ''operate'' ''send_msg'' = Inr api
        \<and> api_entry E ''info'' ''my_info'' = Inr my \<and> getitem my ''url'' = Inr u
        \<and> request E tr \<lparr>rq_method = ''GET'', rq_url = u, rq_params = None, rq_data = None,
                           rq_credential = Some (credential self)\<rparr> = Inr v
        \<and> v \<noteq> PNone"
  then obtain t ts where texts: "texts = t # ts"
    by (cases texts) auto
  obtain r s1 t1 where one: "send_msg E self t tr = (r, s1, t1)"
    by (metis prod_cases3)
  have first: "s1 = self\<lparr>self_info := v\<rparr>"
    "self_info_lookups u t1 = self_info_lookups u tr + 1"
    using send_msg_first [of self E api my u tr v t r s1 t1] a one by simp_all
  obtain s2 t2 where rest: "send_msgs E s1 ts t1 = (s2, t2)"
    by (metis surj_pair)
  have "self_info s1 \<noteq> PNone"
    using first a by simp
  from send_msgs_cached [OF this rest, of u]
  have "s2 = s1" "self_info_lookups u t2 = self_info_lookups u t1"
    by simp_all
  moreover have "send_msgs E self texts tr = (s2, t2)"
    using texts one rest by simp
  ultimately show "fst (send_msgs E self texts tr) = self\<lparr>self_info := v\<rparr>"
    and "self_info_lookups u (snd (send_msgs E self texts tr)) = self_info_lookups u tr + 1"
    using first by simp_all
next
  assume a: "self_info self = PNone
        \<and> sessdata (credential self) \<noteq> None \<and> bili_jct (credential self) \<noteq> None
        \<and> api_entry E ''operate'' ''send_msg'' = Inr api
        \<and> api_entry E ''info'' ''my_info'' = Inr my \<and> getitem my ''url'' = Inr u
        \<and> (request E tr \<lparr>rq_method = ''GET'', rq_url = u, rq_params = None, rq_data = None,
                            rq_credential = Some (credential self)\<rparr> = Inl e
            \<or> request E tr \<lparr>rq_method = ''GET'', rq_url = u, rq_params = None, rq_data = None,
                            rq_credential = Some (credential self)\<rparr> = Inr PNone)"
  then show "send_msg E self t tr =
        (Inl (case request E tr \<lparr>rq_method = ''GET'', rq_url = u, rq_params = None,
                                  rq_data = None, rq_credential = Some (credential self)\<rparr> of
                Inl e' \<Rightarrow> e' | Inr v' \<Rightarrow> TypeError),
         self,
         tr @ [Request \<lparr>rq_method = ''GET'', rq_url = u, rq_params = None, rq_data = None,
                          rq_credential = Some (credential self)\<rparr>])"
    using send_msg_lookup_fails [of self E api my u tr e t] by blast
  from a show "\<exists>r' self' rest.
            send_msg E self t'
              (tr @ [Request \<lparr>rq_method = ''GET'', rq_url = u, rq_params = None,
                               rq_data = None, rq_credential = Some (credential self)\<rparr>]) =
            (r', self',
             (tr @ [Request \<lparr>rq_method = ''GET'', rq_url = u, rq_params = None,
                               rq_data = None, rq_credential = Some (credential self)\<rparr>])
              @ [Request \<lparr>rq_method = ''GET'', rq_url = u, rq_params = None,
                           rq_data = None, rq_credential = Some (credential self)\<rparr>] @ rest)"
    using send_msg_uncached_looks_up [of self E api my u] by blast
qed

theorem self_info_looked_up_once_witness:
  "send_msgs (demo_env (PInt 0)) (User_init 2 (Some logged_in)) [''a'', ''b''] [] =
     ((User_init 2 (Some logged_in))\<lparr>self_info := PDict [(''mid'', PInt 7)]\<rparr>,
      [demo_lookup,
       demo_post,
       demo_post])
   \<and> self_info_lookups (PStr ''https://api/my_info'')
        (snd (send_msgs (demo_env (PInt 0)) (User_init 2 (Some logged_in)) [''a'', ''b''] [])) = 1
   \<and> self_info_lookups (PStr ''https://api/my_info'')
        (snd (send_msgs (demo_env (PInt 0))
               ((User_init 2 (Some logged_in))\<lparr>self_info := PDict [(''mid'', PInt 7)]\<rparr>)
               [''c'', ''d''] [])) = 0
   \<and> send_msg offline_env (User_init 2 (Some logged_in)) ''a'' [] =
       (Inl NetworkException, User_init 2 (Some logged_in), [demo_lookup])
   \<and> send_msg null_env (User_init 2 (Some logged_in)) ''a'' [] =
       (Inl TypeError, User_init 2 (Some logged_in), [demo_lookup])
   \<and> (\<exists>r' self' rest.
         send_msg null_env (User_init 2 (Some logged_in)) ''b'' [demo_lookup] =
           (r', self', [demo_lookup, demo_lookup] @ rest))"
proof -
  let ?E = "demo_env (PInt 0)"
  let ?u = "PStr ''https://api/my_info''"
  let ?fresh = "User_init 2 (Some logged_in)"
  let ?cached = "?fresh\<lparr>self_info := PDict [(''mid'', PInt 7)]\<rparr>"
  let ?L = "\<lparr>rq_method = ''GET'', rq_url = ?u, rq_params = None, rq_data = None,
             rq_credential = Some (credential ?fresh)\<rparr>"
  have h1: "self_info ?cached \<noteq> PNone"
    by simp
  have h2: "self_info ?fresh = PNone \<and> [''a'', ''b''] \<noteq> []
        \<and> sessdata (credential ?fresh) \<noteq> None \<and> bili_jct (credential ?fresh) \<noteq> None
        \<and> api_entry ?E ''operate'' ''send_msg'' = Inr (PDict [(''url'', PStr ''https://api/send_msg'')])
        \<and> api_entry ?E ''info'' ''my_info'' = Inr (PDict [(''url'', ?u)])
        \<and> getitem (PDict [(''url'', ?u)]) ''url'' = Inr ?u
        \<and> request ?E [] \<lparr>rq_method = ''GET'', rq_url = ?u, rq_params = None, rq_data = None,
                           rq_credential = Some (credential ?fresh)\<rparr> = Inr (PDict [(''mid'', PInt 7)])
        \<and> PDict [(''mid'', PInt 7)] \<noteq> PNone"
    by (simp add: api_entry_demo_info api_entry_demo_operate User_init_def logged_in_sel
        demo_env_sel demo_request_def)
  have h3: "self_info ?fresh = PNone
        \<and> sessdata (credential ?fresh) \<noteq> None \<and> bili_jct (credential ?fresh) \<noteq> None
        \<and> api_entry offline_env ''operate'' ''send_msg'' =
            Inr (PDict [(''url'', PStr ''https://api/send_msg'')])
        \<and> api_entry offline_env ''info'' ''my_info'' = Inr (PDict [(''url'', ?u)])
        \<and> getitem (PDict [(''url'', ?u)]) ''url'' = Inr ?u
        \<and> (request offline_env [] ?L = Inl NetworkException
            \<or> request offline_env [] ?L = Inr PNone)"
    by (simp add: offline_env_def api_entry_other_network api_entry_demo_info
        api_entry_demo_operate User_init_def logged_in_sel)
  have h4: "self_info ?fresh = PNone
        \<and> sessdata (credential ?fresh) \<noteq> None \<and> bili_jct (credential ?fresh) \<noteq> None
        \<and> api_entry null_env ''operate'' ''send_msg'' =
            Inr (PDict [(''url'', PStr ''https://api/send_msg'')])
        \<and> api_entry null_env ''info'' ''my_info'' = Inr (PDict [(''url'', ?u)])
        \<and> getitem (PDict [(''url'', ?u)]) ''url'' = Inr ?u
        \<and> (request null_env [] ?L = Inl NetworkException
            \<or> request null_env [] ?L = Inr PNone)"
    by (simp add: null_env_def api_entry_other_network api_entry_demo_info
        api_entry_demo_operate User_init_def logged_in_sel)
  have L: "Request ?L = demo_lookup"
    by (simp add: demo_lookup_def User_init_def)
  note a = self_info_looked_up_once
             [where E = ?E and u = ?u and tr = "[]" and texts = "[''c'', ''d'']",
              THEN conjunct1, THEN mp, OF h1, THEN conjunct2]
  note b = self_info_looked_up_once [THEN conjunct2, THEN conjunct1, THEN mp, OF h2, THEN conjunct2]
  note c = self_info_looked_up_once
             [where t = "''a''", THEN conjunct2, THEN conjunct2, THEN mp, OF h3, THEN conjunct1]
  note d = self_info_looked_up_once
             [where t = "''a''", THEN conjunct2, THEN conjunct2, THEN mp, OF h4, THEN conjunct1]
  note e = self_info_looked_up_once
             [where t' = "''b''", THEN conjunct2, THEN conjunct2, THEN mp, OF h4, THEN conjunct2]
  have c': "send_msg offline_env ?fresh ''a'' [] = (Inl NetworkException, ?fresh, [demo_lookup])"
    using c by (simp add: L offline_env_def)
  have d': "send_msg null_env ?fresh ''a'' [] = (Inl TypeError, ?fresh, [demo_lookup])"
    using d by (simp add: L null_env_def)
  have e': "\<exists>r' self' rest.
         send_msg null_env ?fresh ''b'' [demo_lookup] = (r', self', [demo_lookup, demo_lookup] @ rest)"
    using e by (simp add: L)
  show ?thesis
    using a b demo_send_twice c' d' e' by (simp add: self_info_lookups_def)
qed

end
